theory Spec2Isabelle
  imports Complex_Main "HOL-Library.Multiset"
begin

section \<open>Item management service: data model\<close>

text \<open>
  The service of \<^verbatim>\<open>app.py\<close> keeps a process-wide list of items
  (\<^verbatim>\<open>in_memory_store\<close>), mirrors it into a JSON file
  (\<^verbatim>\<open>items_backup.json\<close>) and, when a PostgreSQL server answers, into a table.

  Python's \<^verbatim>\<open>int\<close> is \<open>int\<close>; its \<^verbatim>\<open>float\<close> is an IEEE binary64 number,
  modelled below by its exact value and the rounding of the one subtraction the code does.
\<close>

section \<open>Python floats\<close>

text \<open>
  A \<^verbatim>\<open>cost\<close> field passes the check \<^verbatim>\<open>ge=0\<close>, which neither NaN nor minus infinity
  does: a stored cost is a finite double, given by its exact rational value, or plus
  infinity. The order is the order of doubles.
\<close>

datatype cost = Finite rat | Infinity

instantiation cost :: linorder
begin

fun less_eq_cost :: "cost \<Rightarrow> cost \<Rightarrow> bool" where
  "less_eq_cost (Finite x) (Finite y) = (x \<le> y)"
| "less_eq_cost (Finite x) Infinity = True"
| "less_eq_cost Infinity (Finite y) = False"
| "less_eq_cost Infinity Infinity = True"

definition less_cost :: "cost \<Rightarrow> cost \<Rightarrow> bool" where
  "less_cost a b = (a \<le> b \<and> \<not> b \<le> a)"

instance
proof
  fix x y z :: cost
  show "(x < y) = (x \<le> y \<and> \<not> y \<le> x)" by (simp add: less_cost_def)
  show "x \<le> x" by (cases x) simp_all
  show "x \<le> y \<Longrightarrow> y \<le> z \<Longrightarrow> x \<le> z" by (cases x; cases y; cases z) simp_all
  show "x \<le> y \<Longrightarrow> y \<le> x \<Longrightarrow> x = y" by (cases x; cases y) simp_all
  show "x \<le> y \<or> y \<le> x" by (cases x; cases y) auto
qed

end

text \<open>The result of float arithmetic: any double.\<close>

datatype double = Num rat | Pos_inf | Neg_inf | Not_a_number

text \<open>
  Rounding of an exact value to binary64, to nearest with ties to even: the exponent of the
  value (not below that of the subnormals), the spacing of the doubles at that exponent,
  the nearest multiple of the spacing, and infinity when that reaches \<open>2 ^ 1024\<close>.
\<close>

fun bit_length :: "nat \<Rightarrow> nat" where
  "bit_length n = (if n = 0 then 0 else Suc (bit_length (n div 2)))"

declare bit_length.simps [simp del]

definition pow2 :: "int \<Rightarrow> rat" where
  "pow2 e = (if 0 \<le> e then 2 ^ nat e else 1 / 2 ^ nat (- e))"

text \<open>For \<open>0 < q\<close>, the \<open>e\<close> with \<open>2 ^ e \<le> q < 2 ^ (e + 1)\<close>.\<close>

definition floor_log2 :: "rat \<Rightarrow> int" where
  "floor_log2 q =
     (if 1 \<le> q then int (bit_length (nat \<lfloor>q\<rfloor>)) - 1
      else - int (bit_length (nat (\<lceil>1 / q\<rceil> - 1))))"

definition round_half_even :: "rat \<Rightarrow> int" where
  "round_half_even m =
     (let f = \<lfloor>m\<rfloor>; d = m - of_int f
      in if d < 1 / 2 then f else if 1 / 2 < d then f + 1 else if even f then f else f + 1)"

definition round_double :: "rat \<Rightarrow> double" where
  "round_double q =
     (if q = 0 then Num 0
      else
        let e = max (floor_log2 \<bar>q\<bar>) (- 1022);
            ulp = pow2 (e - 52);
            r = of_int (round_half_even (\<bar>q\<bar> / ulp)) * ulp
        in if pow2 1024 \<le> r then (if 0 < q then Pos_inf else Neg_inf)
           else Num (if 0 < q then r else - r))"

text \<open>\<^verbatim>\<open>a - b\<close>, \<^verbatim>\<open>abs(x)\<close> and \<^verbatim>\<open>x < y\<close> on floats, and the literal \<^verbatim>\<open>0.01\<close>.\<close>

fun float_sub :: "cost \<Rightarrow> cost \<Rightarrow> double" where
  "float_sub (Finite x) (Finite y) = round_double (x - y)"
| "float_sub (Finite x) Infinity = Neg_inf"
| "float_sub Infinity (Finite y) = Pos_inf"
| "float_sub Infinity Infinity = Not_a_number"

fun float_abs :: "double \<Rightarrow> double" where
  "float_abs (Num x) = Num \<bar>x\<bar>"
| "float_abs Pos_inf = Pos_inf"
| "float_abs Neg_inf = Pos_inf"
| "float_abs Not_a_number = Not_a_number"

fun float_lt :: "double \<Rightarrow> double \<Rightarrow> bool" where
  "float_lt (Num x) (Num y) = (x < y)"
| "float_lt (Num x) Pos_inf = True"
| "float_lt Neg_inf (Num y) = True"
| "float_lt Neg_inf Pos_inf = True"
| "float_lt _ _ = False"

definition float_0_01 :: double where
  "float_0_01 = round_double (1 / 100)"

section \<open>Items, requests and the state\<close>

record Item =
  item_id :: "int option"
  item_code :: string
  item_unit :: int
  item_age :: int
  item_cost :: cost

record AddItemRequest =
  req_id :: int
  req_code :: string
  req_unit :: int
  req_age :: int
  req_cost :: cost

datatype sort_by = By_unit | By_age | By_cost

datatype json =
    JNull
  | JBool bool
  | JInt int
  | JFloat cost
  | JStr string
  | JArr "json list"
  | JObj "(string \<times> json) list"

record ApiResponse =
  status :: string
  message :: string
  data :: "json option"

datatype http_error = HTTPException int string

text \<open>
  An exception that leaves \<^verbatim>\<open>call_stored_procedure\<close>: either the
  \<^verbatim>\<open>HTTPException\<close> it raises itself, or whatever \<^verbatim>\<open>conn.rollback()\<close> raised
  inside one of its \<^verbatim>\<open>except\<close> clauses.
\<close>

datatype exn = HTTP http_error | Other_exception

subsection \<open>The world outside the process\<close>

text \<open>The persistence file: absent, present but not a JSON document, or a JSON document.\<close>

datatype file_state = NoFile | Unparsable | Document json

text \<open>
  What the body of the \<^verbatim>\<open>try\<close> in \<^verbatim>\<open>call_stored_procedure\<close> meets:
  \<^verbatim>\<open>get_db_connection\<close> fails; a \<^verbatim>\<open>psycopg2.Error\<close> with text \<open>m\<close> is raised by
  the cursor, the procedure call, the fetch or the commit; the fetch returns no row; or it
  returns the row \<open>(id, status, message)\<close>.
\<close>

datatype proc_outcome =
    ProcConnectRefused
  | ProcDriverError string
  | ProcNoRow
  | ProcRow "int option" int string

text \<open>
  What the body of the inner \<^verbatim>\<open>try\<close> of \<^verbatim>\<open>remove_item\<close> and
  \<^verbatim>\<open>clear_items\<close> meets: \<^verbatim>\<open>get_db_connection\<close> fails, \<^verbatim>\<open>conn.cursor()\<close>
  raises, the statement or its commit raises, or the statement runs and reports a row count.
\<close>

datatype stmt_outcome =
    StmtConnectRefused
  | StmtCursorError
  | StmtDriverError
  | StmtDone nat

datatype write_outcome = WriteOk | OpenFails | DumpFails

text \<open>
  One request sees one environment: whether the probe's connection opens, what the database
  work after the probe meets, whether \<^verbatim>\<open>conn.rollback()\<close> returns, whether the file
  write goes through, and the clock. \<^verbatim>\<open>close()\<close> of a cursor or connection is taken
  not to raise.
\<close>

record env =
  connect_ok :: bool
  proc :: proc_outcome
  stmt :: stmt_outcome
  rollback_ok :: bool
  file_write :: write_outcome
  now :: string

text \<open>The database operations a handler starts, in order, kept as a log.\<close>

datatype db_op =
    OpProbe
  | OpInsert string int int cost
  | OpDelete int
  | OpTruncate

record app_state =
  in_memory_store :: "Item list"
  persistence_file :: file_state
  db_log :: "db_op list"

section \<open>Items and their JSON form\<close>

text \<open>The field constraints of the pydantic model \<^verbatim>\<open>Item\<close>.\<close>

definition Item_valid :: "Item \<Rightarrow> bool" where
  "Item_valid it \<longleftrightarrow>
     1 \<le> length (item_code it) \<and> 0 \<le> item_unit it \<and> 0 \<le> item_age it
     \<and> Finite 0 \<le> item_cost it"

text \<open>The same constraints on \<^verbatim>\<open>AddItemRequest\<close>, checked before the handler runs.\<close>

definition AddItemRequest_valid :: "AddItemRequest \<Rightarrow> bool" where
  "AddItemRequest_valid r \<longleftrightarrow>
     1 \<le> length (req_code r) \<and> 0 \<le> req_unit r \<and> 0 \<le> req_age r
     \<and> Finite 0 \<le> req_cost r"

text \<open>\<^verbatim>\<open>Item(id=..., code=..., unit=..., age=..., cost=...)\<close>: \<open>None\<close> is a ValidationError.\<close>

definition new_Item :: "int option \<Rightarrow> string \<Rightarrow> int \<Rightarrow> int \<Rightarrow> cost \<Rightarrow> Item option" where
  "new_Item i c u a k =
     (let it = \<lparr>item_id = i, item_code = c, item_unit = u, item_age = a, item_cost = k\<rparr>
      in if Item_valid it then Some it else None)"

text \<open>\<^verbatim>\<open>item.dict()\<close>\<close>

definition dict :: "Item \<Rightarrow> json" where
  "dict it =
     JObj [(''id'', case item_id it of None \<Rightarrow> JNull | Some i \<Rightarrow> JInt i),
           (''code'', JStr (item_code it)),
           (''unit'', JInt (item_unit it)),
           (''age'', JInt (item_age it)),
           (''cost'', JFloat (item_cost it))]"

text \<open>
  \<^verbatim>\<open>Item(**item)\<close> on a value read back from the file. A field of the type the
  model declares is accepted (an integer also where a float is expected, a missing or null
  \<^verbatim>\<open>id\<close> as \<^verbatim>\<open>None\<close>); any other value is a validation error here, pydantic's
  coercions of foreign types not being part of the repository.
\<close>

fun as_optional_int :: "json option \<Rightarrow> int option option" where
  "as_optional_int None = Some None"
| "as_optional_int (Some JNull) = Some None"
| "as_optional_int (Some (JInt i)) = Some (Some i)"
| "as_optional_int (Some _) = None"

fun as_int :: "json option \<Rightarrow> int option" where
  "as_int (Some (JInt i)) = Some i"
| "as_int _ = None"

fun as_str :: "json option \<Rightarrow> string option" where
  "as_str (Some (JStr s)) = Some s"
| "as_str _ = None"

fun as_float :: "json option \<Rightarrow> cost option" where
  "as_float (Some (JFloat r)) = Some r"
| "as_float (Some (JInt i)) = Some (Finite (of_int i))"
| "as_float _ = None"

fun Item_of_json :: "json \<Rightarrow> Item option" where
  "Item_of_json (JObj kv) =
     (case as_optional_int (map_of kv ''id'') of None \<Rightarrow> None | Some i \<Rightarrow>
     (case as_str (map_of kv ''code'') of None \<Rightarrow> None | Some c \<Rightarrow>
     (case as_int (map_of kv ''unit'') of None \<Rightarrow> None | Some u \<Rightarrow>
     (case as_int (map_of kv ''age'') of None \<Rightarrow> None | Some a \<Rightarrow>
     (case as_float (map_of kv ''cost'') of None \<Rightarrow> None | Some k \<Rightarrow>
      new_Item i c u a k)))))"
| "Item_of_json _ = None"

section \<open>File store\<close>

text \<open>
  \<^verbatim>\<open>save_to_file\<close>: the whole store and a timestamp replace the file. A failure is
  logged and swallowed: when \<^verbatim>\<open>open\<close> fails the file is as it was, when
  \<^verbatim>\<open>json.dump\<close> fails the file is left truncated.
\<close>

definition save_to_file :: "env \<Rightarrow> app_state \<Rightarrow> app_state" where
  "save_to_file e st =
     (case file_write e of
        WriteOk \<Rightarrow>
          st\<lparr>persistence_file :=
               Document (JObj [(''items'', JArr (map dict (in_memory_store st))),
                               (''timestamp'', JStr (now e))])\<rparr>
      | OpenFails \<Rightarrow> st
      | DumpFails \<Rightarrow> st\<lparr>persistence_file := Unparsable\<rparr>)"

text \<open>\<^verbatim>\<open>data.get("items", [])\<close> followed by the list comprehension over it.\<close>

fun items_of_document :: "json \<Rightarrow> Item list option" where
  "items_of_document (JObj kv) =
     (case map_of kv ''items'' of
        None \<Rightarrow> Some []
      | Some (JArr js) \<Rightarrow> those (map Item_of_json js)
      | Some _ \<Rightarrow> None)"
| "items_of_document _ = None"

text \<open>
  \<^verbatim>\<open>load_from_file\<close>: no file leaves the store alone; any exception empties it.
\<close>

definition load_from_file :: "app_state \<Rightarrow> app_state" where
  "load_from_file st =
     (case persistence_file st of
        NoFile \<Rightarrow> st
      | Unparsable \<Rightarrow> st\<lparr>in_memory_store := []\<rparr>
      | Document d \<Rightarrow>
          (case items_of_document d of
             None \<Rightarrow> st\<lparr>in_memory_store := []\<rparr>
           | Some its \<Rightarrow> st\<lparr>in_memory_store := its\<rparr>))"

section \<open>Database gateway\<close>

definition get_db_connection :: "bool \<Rightarrow> http_error + unit" where
  "get_db_connection ok =
     (if ok then Inr () else Inl (HTTPException 503 ''Database connection failed''))"

definition test_db_connection :: "env \<Rightarrow> bool" where
  "test_db_connection e =
     (case get_db_connection (connect_ok e) of Inr _ \<Rightarrow> True | Inl _ \<Rightarrow> False)"

text \<open>
  \<^verbatim>\<open>call_stored_procedure\<close>. The \<^verbatim>\<open>HTTPException\<close> of a refused connection is
  caught by \<^verbatim>\<open>except Exception\<close> (no connection to roll back) and raised again as a
  500 carrying its text (\<^verbatim>\<open>str\<close> of Starlette's exception is its status and detail);
  a driver error and a missing row roll back first, and the exception of a failing rollback
  replaces the 500. The row is taken to have the three columns the code reads.
\<close>

definition call_stored_procedure ::
    "env \<Rightarrow> string \<Rightarrow> int \<Rightarrow> int \<Rightarrow> cost \<Rightarrow> exn + (int option \<times> int \<times> string)" where
  "call_stored_procedure e c u a k =
     (case proc e of
        ProcConnectRefused \<Rightarrow>
          Inl (HTTP (HTTPException 500
                 (''Stored procedure error: '' @ ''503: Database connection failed'')))
      | ProcDriverError m \<Rightarrow>
          if rollback_ok e then Inl (HTTP (HTTPException 500 (''Database error: '' @ m)))
          else Inl Other_exception
      | ProcNoRow \<Rightarrow>
          if rollback_ok e
          then Inl (HTTP (HTTPException 500
                      (''Stored procedure error: '' @ ''No result from stored procedure'')))
          else Inl Other_exception
      | ProcRow i s m \<Rightarrow> Inr (i, s, m))"

text \<open>
  The inner \<^verbatim>\<open>try ... except Exception ... finally\<close> of \<^verbatim>\<open>remove_item\<close> and
  \<^verbatim>\<open>clear_items\<close>: does control leave it normally? A refused connection leaves
  \<^verbatim>\<open>conn\<close> and \<^verbatim>\<open>cur\<close> unbound, so \<^verbatim>\<open>conn.rollback()\<close> and
  \<^verbatim>\<open>cur.close()\<close> raise UnboundLocalError; a failing \<^verbatim>\<open>conn.cursor()\<close> leaves
  \<^verbatim>\<open>cur\<close> unbound for the \<^verbatim>\<open>finally\<close>; after a driver error the block is left
  normally when the rollback returns.
\<close>

definition db_block_completes :: "env \<Rightarrow> bool" where
  "db_block_completes e =
     (case stmt e of
        StmtConnectRefused \<Rightarrow> False
      | StmtCursorError \<Rightarrow> False
      | StmtDriverError \<Rightarrow> rollback_ok e
      | StmtDone n \<Rightarrow> True)"

section \<open>Request handlers\<close>

fun check_duplicate_in_memory :: "Item list \<Rightarrow> string \<Rightarrow> int \<Rightarrow> int \<Rightarrow> cost \<Rightarrow> bool" where
  "check_duplicate_in_memory [] c u a k = False"
| "check_duplicate_in_memory (item # rest) c u a k =
     (if item_code item = c \<and> item_unit item = u \<and> item_age item = a
         \<and> float_lt (float_abs (float_sub (item_cost item) k)) float_0_01
      then True
      else check_duplicate_in_memory rest c u a k)"

text \<open>Decimal text of an integer, as an f-string prints it.\<close>

fun str_nat :: "nat \<Rightarrow> string" where
  "str_nat n =
     (if n < 10 then [''0123456789'' ! n]
      else str_nat (n div 10) @ [''0123456789'' ! (n mod 10)])"

declare str_nat.simps [simp del]

definition str_int :: "int \<Rightarrow> string" where
  "str_int i = (if i < 0 then CHR ''-'' # str_nat (nat (- i)) else str_nat (nat i))"

definition log_db :: "db_op \<Rightarrow> app_state \<Rightarrow> app_state" where
  "log_db op st = st\<lparr>db_log := db_log st @ [op]\<rparr>"

text \<open>The tail of \<^verbatim>\<open>add_item\<close>: append, save, answer.\<close>

definition add_commit ::
    "env \<Rightarrow> Item \<Rightarrow> string \<Rightarrow> app_state \<Rightarrow> (http_error + ApiResponse) \<times> app_state" where
  "add_commit e item msg st =
     (let st' = save_to_file e (st\<lparr>in_memory_store := in_memory_store st @ [item]\<rparr>)
      in (Inr \<lparr>status = ''success'', message = msg,
               data = Some (JObj [(''id'', case item_id item of None \<Rightarrow> JNull | Some i \<Rightarrow> JInt i),
                                  (''total_items'', JInt (int (length (in_memory_store st'))))])\<rparr>,
          st'))"

text \<open>
  The memory-only construction, written twice in the source (the \<^verbatim>\<open>except Exception\<close>
  clause and the \<^verbatim>\<open>else\<close> branch). A ValidationError there reaches the outer
  \<^verbatim>\<open>except Exception\<close>.
\<close>

definition add_memory_only ::
    "env \<Rightarrow> AddItemRequest \<Rightarrow> app_state \<Rightarrow> (http_error + ApiResponse) \<times> app_state" where
  "add_memory_only e r st =
     (case new_Item (Some (req_id r)) (req_code r) (req_unit r) (req_age r) (req_cost r) of
        None \<Rightarrow> (Inl (HTTPException 500 ''Internal server error''), st)
      | Some item \<Rightarrow>
          add_commit e item ''Item added to memory only (database unavailable)'' st)"

definition add_item ::
    "env \<Rightarrow> AddItemRequest \<Rightarrow> app_state \<Rightarrow> (http_error + ApiResponse) \<times> app_state" where
  "add_item e r st =
     (if check_duplicate_in_memory (in_memory_store st)
           (req_code r) (req_unit r) (req_age r) (req_cost r)
      then (Inl (HTTPException 400 ''Duplicate item detected in memory store''), st)
      else
        let st1 = log_db OpProbe st in
        if test_db_connection e then
          (let st2 = log_db (OpInsert (req_code r) (req_unit r) (req_age r) (req_cost r)) st1
           in case call_stored_procedure e (req_code r) (req_unit r) (req_age r) (req_cost r) of
                Inl (HTTP err) \<Rightarrow> (Inl err, st2)
              | Inl Other_exception \<Rightarrow> add_memory_only e r st2
              | Inr (row_id, row_status, row_message) \<Rightarrow>
                  if row_status = 0 then (Inl (HTTPException 400 row_message), st2)
                  else
                    (case new_Item row_id (req_code r) (req_unit r) (req_age r) (req_cost r) of
                       None \<Rightarrow> add_memory_only e r st2
                     | Some item \<Rightarrow> add_commit e item row_message st2))
        else add_memory_only e r st1)"

text \<open>
  \<^verbatim>\<open>getattr(x, request.sort_by)\<close>: the numeric field chosen by the request. The two
  integer fields are read as finite values of the ordered type of costs, which keeps their
  order.
\<close>

fun getattr :: "sort_by \<Rightarrow> Item \<Rightarrow> cost" where
  "getattr By_unit x = Finite (of_int (item_unit x))"
| "getattr By_age x = Finite (of_int (item_age x))"
| "getattr By_cost x = item_cost x"

text \<open>
  \<^verbatim>\<open>sorted(in_memory_store, key=...)\<close> is Python's stable ascending sort; it is taken
  here as the library's stable insertion sort \<^const>\<open>sort_key\<close>.
\<close>

definition get_snapshot ::
    "sort_by \<Rightarrow> app_state \<Rightarrow> (http_error + Item list) \<times> app_state" where
  "get_snapshot sb st =
     (if in_memory_store st = [] then (Inr [], st)
      else (Inr (sort_key (getattr sb) (in_memory_store st)), st))"

definition remove_item ::
    "env \<Rightarrow> int \<Rightarrow> app_state \<Rightarrow> (http_error + ApiResponse) \<times> app_state" where
  "remove_item e x st =
     (let original_count = length (in_memory_store st);
          st1 = st\<lparr>in_memory_store := filter (\<lambda>item. item_id item \<noteq> Some x) (in_memory_store st)\<rparr>
      in if length (in_memory_store st1) = original_count
         then (Inl (HTTPException 404 ''Item not found in memory''), st1)
         else
           let st2 = log_db OpProbe st1;
               st3 = (if test_db_connection e then log_db (OpDelete x) st2 else st2)
           in if test_db_connection e \<and> \<not> db_block_completes e
              then (Inl (HTTPException 500 ''Failed to remove item''), st3)
              else
                let st4 = save_to_file e st3
                in (Inr \<lparr>status = ''success'',
                         message = ''Item '' @ str_int x @ '' removed successfully'',
                         data = Some (JObj [(''remaining_items'',
                                             JInt (int (length (in_memory_store st4))))])\<rparr>,
                    st4))"

definition clear_items :: "env \<Rightarrow> app_state \<Rightarrow> (http_error + ApiResponse) \<times> app_state" where
  "clear_items e st =
     (let items_count = length (in_memory_store st);
          st1 = st\<lparr>in_memory_store := []\<rparr>;
          st2 = log_db OpProbe st1;
          st3 = (if test_db_connection e then log_db OpTruncate st2 else st2)
      in if test_db_connection e \<and> \<not> db_block_completes e
         then (Inl (HTTPException 500 ''Failed to clear items''), st3)
         else
           let st4 = save_to_file e st3
           in (Inr \<lparr>status = ''success'',
                    message = ''All items cleared successfully ('' @ str_int (int items_count)
                              @ '' items removed)'',
                    data = Some (JObj [(''items_cleared'', JInt (int items_count))])\<rparr>,
               st4))"

text \<open>\<^verbatim>\<open>startup_event\<close>: the store of a fresh process is empty, then the file is read.\<close>

definition startup_event :: "file_state \<Rightarrow> app_state" where
  "startup_event f = load_from_file \<lparr>in_memory_store = [], persistence_file = f, db_log = []\<rparr>"

section \<open>Example inputs\<close>

text \<open>
  Environments of one request: the database down; the procedure call failing in the driver
  with a working rollback; the procedure refusing the row; the procedure accepting it; the
  connection refused right after a probe that went through.
\<close>

definition env_db_down :: env where
  "env_db_down =
     \<lparr>connect_ok = False, proc = ProcConnectRefused, stmt = StmtConnectRefused,
      rollback_ok = True, file_write = WriteOk, now = ''2024-05-01T12:00:00''\<rparr>"

definition env_insert_fails :: env where
  "env_insert_fails =
     \<lparr>connect_ok = True, proc = ProcDriverError ''function add_call does not exist'',
      stmt = StmtDone 1, rollback_ok = True, file_write = WriteOk,
      now = ''2024-05-01T12:00:00''\<rparr>"

definition env_insert_rejected :: env where
  "env_insert_rejected =
     \<lparr>connect_ok = True, proc = ProcRow None 0 ''Item already exists'',
      stmt = StmtDone 1, rollback_ok = True, file_write = WriteOk,
      now = ''2024-05-01T12:00:00''\<rparr>"

definition env_insert_accepted :: env where
  "env_insert_accepted =
     \<lparr>connect_ok = True, proc = ProcRow (Some 42) 1 ''Item added successfully'',
      stmt = StmtDone 1, rollback_ok = True, file_write = WriteOk,
      now = ''2024-05-01T12:00:00''\<rparr>"

definition env_reconnect_refused :: env where
  "env_reconnect_refused =
     \<lparr>connect_ok = True, proc = ProcConnectRefused, stmt = StmtConnectRefused,
      rollback_ok = True, file_write = WriteOk, now = ''2024-05-01T12:00:00''\<rparr>"

definition request_A1 :: AddItemRequest where
  "request_A1 = \<lparr>req_id = 7, req_code = ''A1'', req_unit = 5, req_age = 2,
                  req_cost = Finite 10\<rparr>"

definition request_B2 :: AddItemRequest where
  "request_B2 = \<lparr>req_id = 7, req_code = ''B2'', req_unit = 1, req_age = 3,
                  req_cost = Finite (5 / 2)\<rparr>"

definition item_A1 :: Item where
  "item_A1 = \<lparr>item_id = Some 7, item_code = ''A1'', item_unit = 5, item_age = 2,
               item_cost = Finite 10\<rparr>"

definition item_B2 :: Item where
  "item_B2 = \<lparr>item_id = Some 7, item_code = ''B2'', item_unit = 1, item_age = 3,
               item_cost = Finite (5 / 2)\<rparr>"

definition fresh_state :: app_state where
  "fresh_state = startup_event NoFile"

text \<open>The store after one memory-only add, and after a second one with the same id.\<close>

definition state_A1 :: app_state where
  "state_A1 = snd (add_item env_db_down request_A1 fresh_state)"

definition state_shared_id :: app_state where
  "state_shared_id =
     snd (add_item env_db_down request_B2 (snd (add_item env_db_down request_A1 fresh_state)))"

text \<open>
  The doubles written \<^verbatim>\<open>10.004\<close>, \<^verbatim>\<open>10.02\<close>, \<^verbatim>\<open>0.01\<close> and \<^verbatim>\<open>5e-19\<close>, by
  their exact values (see \<open>literal_10_004\<close>, \<open>literal_10_02\<close>, \<open>float_0_01_eq\<close> and
  \<open>literal_5e_19\<close>).
\<close>

definition cost_10_004 :: cost where
  "cost_10_004 = Finite (5631751334026805 / 562949953421312)"

definition cost_10_02 :: cost where
  "cost_10_02 = Finite (2820379266640773 / 281474976710656)"

definition cost_0_01 :: cost where
  "cost_0_01 = Finite (5764607523034235 / 576460752303423488)"

definition cost_5e_19 :: cost where
  "cost_5e_19 = Finite (1298074214633707 / 2596148429267413814265248164610048)"

text \<open>An item costing \<^verbatim>\<open>0.01\<close> is added; then the same item is asked for at \<^verbatim>\<open>5e-19\<close>.\<close>

definition request_cent :: AddItemRequest where
  "request_cent = \<lparr>req_id = 1, req_code = ''C3'', req_unit = 5, req_age = 2,
                    req_cost = cost_0_01\<rparr>"

definition request_tiny :: AddItemRequest where
  "request_tiny = \<lparr>req_id = 2, req_code = ''C3'', req_unit = 5, req_age = 2,
                    req_cost = cost_5e_19\<rparr>"

definition state_cent :: app_state where
  "state_cent = snd (add_item env_db_down request_cent fresh_state)"

section \<open>Auxiliary facts\<close>

subsection \<open>Float arithmetic on the example values\<close>

lemma floor_rat_numeral [simp]:
  "\<lfloor>numeral a / numeral b :: rat\<rfloor> = numeral a div numeral b"
  using floor_divide_of_int_eq [of "numeral a" "numeral b", where ?'a = rat] by simp

lemma ceiling_rat_numeral [simp]:
  "\<lceil>numeral a / numeral b :: rat\<rceil> = - (- numeral a div numeral b)"
proof -
  have "\<lceil>numeral a / numeral b :: rat\<rceil>
          = - \<lfloor>of_int (- numeral a) / of_int (numeral b) :: rat\<rfloor>"
    by (simp add: ceiling_def)
  also have "\<dots> = - (- numeral a div numeral b)"
    by (simp only: floor_divide_of_int_eq)
  finally show ?thesis .
qed

lemma bit_length_0 [simp]: "bit_length 0 = 0"
  by (simp add: bit_length.simps)

lemma bit_length_1 [simp]: "bit_length 1 = 1"
  by (simp add: bit_length.simps)

lemma bit_length_Suc_0 [simp]: "bit_length (Suc 0) = Suc 0"
  by (simp add: bit_length.simps)

lemma bit_length_Bit0 [simp]:
  "bit_length (numeral (Num.Bit0 k)) = Suc (bit_length (numeral k))"
  by (subst bit_length.simps) simp

lemma bit_length_Bit1 [simp]:
  "bit_length (numeral (Num.Bit1 k)) = Suc (bit_length (numeral k))"
  by (subst bit_length.simps) simp

lemma round_double_finite:
  assumes "q \<noteq> 0"
    and "floor_log2 \<bar>q\<bar> = e"
    and "pow2 (max e (- 1022) - 52) = u"
    and "round_half_even (\<bar>q\<bar> / u) = n"
    and "of_int n * u < pow2 1024"
  shows "round_double q = Num (if 0 < q then of_int n * u else - (of_int n * u))"
proof -
  from assms(5) have "\<not> pow2 1024 \<le> of_int n * u" by simp
  with assms(1) show ?thesis
    unfolding round_double_def Let_def assms(2) assms(3) assms(4) by simp
qed

lemma literal_0_01:
  "round_double (1 / 100) = Num (5764607523034235 / 576460752303423488)"
proof -
  let ?q = "1 / 100 :: rat"
  have "round_double ?q
          = Num (if 0 < ?q then of_int 5764607523034235 * (1 / 576460752303423488)
                 else - (of_int 5764607523034235 * (1 / 576460752303423488)))"
  proof (rule round_double_finite [where e = "- 7"])
    show "?q \<noteq> 0" by simp
    show "floor_log2 \<bar>?q\<bar> = - 7" by (simp add: floor_log2_def)
    show "pow2 (max (- 7) (- 1022) - 52) = 1 / 576460752303423488" by (simp add: pow2_def)
    show "round_half_even (\<bar>?q\<bar> / (1 / 576460752303423488)) = 5764607523034235"
      by (simp add: round_half_even_def Let_def)
    show "of_int 5764607523034235 * (1 / 576460752303423488) < pow2 1024"
      by (simp add: pow2_def)
  qed
  then show ?thesis by simp
qed

lemma literal_10_004:
  "round_double (10004 / 1000) = Num (5631751334026805 / 562949953421312)"
proof -
  let ?q = "10004 / 1000 :: rat"
  have "round_double ?q
          = Num (if 0 < ?q then of_int 5631751334026805 * (1 / 562949953421312)
                 else - (of_int 5631751334026805 * (1 / 562949953421312)))"
  proof (rule round_double_finite [where e = "3"])
    show "?q \<noteq> 0" by simp
    show "floor_log2 \<bar>?q\<bar> = 3" by (simp add: floor_log2_def)
    show "pow2 (max (3) (- 1022) - 52) = 1 / 562949953421312" by (simp add: pow2_def)
    show "round_half_even (\<bar>?q\<bar> / (1 / 562949953421312)) = 5631751334026805"
      by (simp add: round_half_even_def Let_def)
    show "of_int 5631751334026805 * (1 / 562949953421312) < pow2 1024"
      by (simp add: pow2_def)
  qed
  then show ?thesis by simp
qed

lemma literal_10_02:
  "round_double (1002 / 100) = Num (2820379266640773 / 281474976710656)"
proof -
  let ?q = "1002 / 100 :: rat"
  have "round_double ?q
          = Num (if 0 < ?q then of_int 5640758533281546 * (1 / 562949953421312)
                 else - (of_int 5640758533281546 * (1 / 562949953421312)))"
  proof (rule round_double_finite [where e = "3"])
    show "?q \<noteq> 0" by simp
    show "floor_log2 \<bar>?q\<bar> = 3" by (simp add: floor_log2_def)
    show "pow2 (max (3) (- 1022) - 52) = 1 / 562949953421312" by (simp add: pow2_def)
    show "round_half_even (\<bar>?q\<bar> / (1 / 562949953421312)) = 5640758533281546"
      by (simp add: round_half_even_def Let_def)
    show "of_int 5640758533281546 * (1 / 562949953421312) < pow2 1024"
      by (simp add: pow2_def)
  qed
  then show ?thesis by simp
qed

lemma literal_5e_19:
  "round_double (5 / 10000000000000000000) = Num (1298074214633707 / 2596148429267413814265248164610048)"
proof -
  let ?q = "5 / 10000000000000000000 :: rat"
  have "round_double ?q
          = Num (if 0 < ?q then of_int 5192296858534828 * (1 / 10384593717069655257060992658440192)
                 else - (of_int 5192296858534828 * (1 / 10384593717069655257060992658440192)))"
  proof (rule round_double_finite [where e = "- 61"])
    show "?q \<noteq> 0" by simp
    show "floor_log2 \<bar>?q\<bar> = - 61" by (simp add: floor_log2_def)
    show "pow2 (max (- 61) (- 1022) - 52) = 1 / 10384593717069655257060992658440192" by (simp add: pow2_def)
    show "round_half_even (\<bar>?q\<bar> / (1 / 10384593717069655257060992658440192)) = 5192296858534828"
      by (simp add: round_half_even_def Let_def)
    show "of_int 5192296858534828 * (1 / 10384593717069655257060992658440192) < pow2 1024"
      by (simp add: pow2_def)
  qed
  then show ?thesis by simp
qed

lemma sub_10_10004:
  "round_double (10 - 5631751334026805 / 562949953421312) = Num (- (2251799813685 / 562949953421312))"
proof -
  let ?q = "10 - 5631751334026805 / 562949953421312 :: rat"
  have "round_double ?q
          = Num (if 0 < ?q then of_int 4611686018426880 * (1 / 1152921504606846976)
                 else - (of_int 4611686018426880 * (1 / 1152921504606846976)))"
  proof (rule round_double_finite [where e = "- 8"])
    show "?q \<noteq> 0" by simp
    show "floor_log2 \<bar>?q\<bar> = - 8" by (simp add: floor_log2_def)
    show "pow2 (max (- 8) (- 1022) - 52) = 1 / 1152921504606846976" by (simp add: pow2_def)
    show "round_half_even (\<bar>?q\<bar> / (1 / 1152921504606846976)) = 4611686018426880"
      by (simp add: round_half_even_def Let_def)
    show "of_int 4611686018426880 * (1 / 1152921504606846976) < pow2 1024"
      by (simp add: pow2_def)
  qed
  then show ?thesis by simp
qed

lemma sub_10_1002:
  "round_double (10 - 2820379266640773 / 281474976710656) = Num (- (5629499534213 / 281474976710656))"
proof -
  let ?q = "10 - 2820379266640773 / 281474976710656 :: rat"
  have "round_double ?q
          = Num (if 0 < ?q then of_int 5764607523034112 * (1 / 288230376151711744)
                 else - (of_int 5764607523034112 * (1 / 288230376151711744)))"
  proof (rule round_double_finite [where e = "- 6"])
    show "?q \<noteq> 0" by simp
    show "floor_log2 \<bar>?q\<bar> = - 6" by (simp add: floor_log2_def)
    show "pow2 (max (- 6) (- 1022) - 52) = 1 / 288230376151711744" by (simp add: pow2_def)
    show "round_half_even (\<bar>?q\<bar> / (1 / 288230376151711744)) = 5764607523034112"
      by (simp add: round_half_even_def Let_def)
    show "of_int 5764607523034112 * (1 / 288230376151711744) < pow2 1024"
      by (simp add: pow2_def)
  qed
  then show ?thesis by simp
qed

lemma sub_cent_tiny:
  "round_double (5764607523034235 / 576460752303423488 - 1298074214633707 / 2596148429267413814265248164610048) = Num (5764607523034235 / 576460752303423488)"
proof -
  let ?q = "5764607523034235 / 576460752303423488 - 1298074214633707 / 2596148429267413814265248164610048 :: rat"
  have "round_double ?q
          = Num (if 0 < ?q then of_int 5764607523034235 * (1 / 576460752303423488)
                 else - (of_int 5764607523034235 * (1 / 576460752303423488)))"
  proof (rule round_double_finite [where e = "- 7"])
    show "?q \<noteq> 0" by simp
    show "floor_log2 \<bar>?q\<bar> = - 7" by (simp add: floor_log2_def)
    show "pow2 (max (- 7) (- 1022) - 52) = 1 / 576460752303423488" by (simp add: pow2_def)
    show "round_half_even (\<bar>?q\<bar> / (1 / 576460752303423488)) = 5764607523034235"
      by (simp add: round_half_even_def Let_def)
    show "of_int 5764607523034235 * (1 / 576460752303423488) < pow2 1024"
      by (simp add: pow2_def)
  qed
  then show ?thesis by simp
qed

lemma float_0_01_eq: "float_0_01 = Num (5764607523034235 / 576460752303423488)"
  by (simp add: float_0_01_def literal_0_01)

text \<open>\<^verbatim>\<open>abs(10.0 - 10.004) < 0.01\<close> is true, \<^verbatim>\<open>abs(10.0 - 10.02) < 0.01\<close> is false.\<close>

lemma near_10_10004:
  "float_lt (float_abs (float_sub (Finite 10) cost_10_004)) float_0_01"
proof -
  have "float_sub (Finite 10) cost_10_004 = Num (- (2251799813685 / 562949953421312))"
    unfolding cost_10_004_def float_sub.simps by (rule sub_10_10004)
  then show ?thesis by (simp add: float_0_01_eq)
qed

lemma far_10_1002:
  "\<not> float_lt (float_abs (float_sub (Finite 10) cost_10_02)) float_0_01"
proof -
  have "float_sub (Finite 10) cost_10_02 = Num (- (5629499534213 / 281474976710656))"
    unfolding cost_10_02_def float_sub.simps by (rule sub_10_1002)
  then show ?thesis by (simp add: float_0_01_eq)
qed

text \<open>
  \<^verbatim>\<open>0.01 - 5e-19\<close> rounds back to \<^verbatim>\<open>0.01\<close>, so \<^verbatim>\<open>abs(0.01 - 5e-19) < 0.01\<close> is
  false, although the exact values differ by less than one hundredth.
\<close>

lemma far_cent_tiny:
  "\<not> float_lt (float_abs (float_sub cost_0_01 cost_5e_19)) float_0_01"
proof -
  have "float_sub cost_0_01 cost_5e_19 = Num (5764607523034235 / 576460752303423488)"
    unfolding cost_0_01_def cost_5e_19_def float_sub.simps by (rule sub_cent_tiny)
  then show ?thesis by (simp add: float_0_01_eq)
qed

text \<open>With an infinite cost on either side the test is false.\<close>

lemma float_test_Infinity:
  "\<not> float_lt (float_abs (float_sub Infinity k)) float_0_01"
  "\<not> float_lt (float_abs (float_sub k Infinity)) float_0_01"
  by (cases k; simp add: float_0_01_eq)+

subsection \<open>Duplicate check, construction, file and log\<close>

lemma check_duplicate_in_memory_iff:
  "check_duplicate_in_memory xs c u a k \<longleftrightarrow>
     (\<exists>it \<in> set xs. item_code it = c \<and> item_unit it = u \<and> item_age it = a
        \<and> float_lt (float_abs (float_sub (item_cost it) k)) float_0_01)"
  by (induction xs) auto

lemma check_duplicate_in_memory_ignores_id:
  "check_duplicate_in_memory (map (\<lambda>it. it\<lparr>item_id := f it\<rparr>) xs) c u a k
     = check_duplicate_in_memory xs c u a k"
  by (induction xs) simp_all

lemma new_Item_valid_request:
  "AddItemRequest_valid r \<Longrightarrow>
   new_Item i (req_code r) (req_unit r) (req_age r) (req_cost r) =
     Some \<lparr>item_id = i, item_code = req_code r, item_unit = req_unit r,
            item_age = req_age r, item_cost = req_cost r\<rparr>"
  by (simp add: new_Item_def Item_valid_def AddItemRequest_valid_def)

lemma new_Item_Some_valid: "new_Item i c u a k = Some it \<Longrightarrow> Item_valid it"
  by (auto simp: new_Item_def Let_def split: if_splits)

lemma save_to_file_store [simp]: "in_memory_store (save_to_file e st) = in_memory_store st"
  by (cases "file_write e") (simp_all add: save_to_file_def)

lemma save_to_file_log [simp]: "db_log (save_to_file e st) = db_log st"
  by (cases "file_write e") (simp_all add: save_to_file_def)

lemma save_to_file_ok:
  "file_write e = WriteOk \<Longrightarrow>
   persistence_file (save_to_file e st) =
     Document (JObj [(''items'', JArr (map dict (in_memory_store st))),
                     (''timestamp'', JStr (now e))])"
  by (simp add: save_to_file_def)

lemma log_db_simps [simp]:
  "in_memory_store (log_db op st) = in_memory_store st"
  "persistence_file (log_db op st) = persistence_file st"
  "db_log (log_db op st) = db_log st @ [op]"
  by (simp_all add: log_db_def)

lemma test_db_connection_iff [simp]: "test_db_connection e \<longleftrightarrow> connect_ok e"
  by (simp add: test_db_connection_def get_db_connection_def)

lemma add_memory_only_valid:
  "AddItemRequest_valid r \<Longrightarrow>
   add_memory_only e r st =
     add_commit e \<lparr>item_id = Some (req_id r), item_code = req_code r, item_unit = req_unit r,
                    item_age = req_age r, item_cost = req_cost r\<rparr>
       ''Item added to memory only (database unavailable)'' st"
  by (simp add: add_memory_only_def new_Item_valid_request)

lemma add_item_offline:
  assumes "AddItemRequest_valid r"
    and "\<not> check_duplicate_in_memory (in_memory_store st)
             (req_code r) (req_unit r) (req_age r) (req_cost r)"
    and "\<not> connect_ok e"
  shows "add_item e r st =
      add_commit e \<lparr>item_id = Some (req_id r), item_code = req_code r, item_unit = req_unit r,
                    item_age = req_age r, item_cost = req_cost r\<rparr>
       ''Item added to memory only (database unavailable)'' (log_db OpProbe st)"
  using assms by (simp add: add_item_def add_memory_only_valid)

lemma add_commit_store:
  "in_memory_store (snd (add_commit e item msg st)) = in_memory_store st @ [item]"
  by (simp add: add_commit_def Let_def)

lemma add_commit_file:
  "file_write e = WriteOk \<Longrightarrow>
   persistence_file (snd (add_commit e item msg st))
     = Document (JObj [(''items'', JArr (map dict (in_memory_store (snd (add_commit e item msg st))))),
                       (''timestamp'', JStr (now e))])"
  by (simp add: add_commit_def Let_def save_to_file_ok)

subsection \<open>The example states, evaluated\<close>

lemma fresh_state_eq:
  "fresh_state = \<lparr>in_memory_store = [], persistence_file = NoFile, db_log = []\<rparr>"
  by (simp add: fresh_state_def startup_event_def load_from_file_def)

lemma state_A1_eq:
  "state_A1 =
     \<lparr>in_memory_store = [item_A1],
      persistence_file =
        Document (JObj [(''items'', JArr [dict item_A1]),
                        (''timestamp'', JStr ''2024-05-01T12:00:00'')]),
      db_log = [OpProbe]\<rparr>"
  by (simp add: state_A1_def fresh_state_eq add_item_def add_memory_only_def
        new_Item_def Item_valid_def add_commit_def save_to_file_def log_db_def
        env_db_down_def request_A1_def item_A1_def)

lemma state_shared_id_eq:
  "state_shared_id =
     \<lparr>in_memory_store = [item_A1, item_B2],
      persistence_file =
        Document (JObj [(''items'', JArr [dict item_A1, dict item_B2]),
                        (''timestamp'', JStr ''2024-05-01T12:00:00'')]),
      db_log = [OpProbe, OpProbe]\<rparr>"
  by (simp add: state_shared_id_def fresh_state_eq add_item_def add_memory_only_def
        new_Item_def Item_valid_def add_commit_def save_to_file_def log_db_def
        env_db_down_def request_A1_def request_B2_def item_A1_def item_B2_def)

subsection \<open>Snapshot, remove and clear\<close>

lemma get_snapshot_eq:
  "get_snapshot sb st = (Inr (sort_key (getattr sb) (in_memory_store st)), st)"
  by (simp add: get_snapshot_def)

lemma remove_item_store:
  "in_memory_store (snd (remove_item e x st))
     = filter (\<lambda>it. item_id it \<noteq> Some x) (in_memory_store st)"
  by (simp add: remove_item_def Let_def)

lemma remove_item_success:
  assumes "\<exists>it \<in> set (in_memory_store st). item_id it = Some x"
    and "\<not> connect_ok e \<or> db_block_completes e"
  shows "remove_item e x st =
     (Inr \<lparr>status = ''success'',
            message = ''Item '' @ str_int x @ '' removed successfully'',
            data = Some (JObj [(''remaining_items'',
                     JInt (int (length (filter (\<lambda>it. item_id it \<noteq> Some x) (in_memory_store st)))))])\<rparr>,
      save_to_file e
        ((if connect_ok e then log_db (OpDelete x) else (\<lambda>s. s))
           (log_db OpProbe
              (st\<lparr>in_memory_store := filter (\<lambda>it. item_id it \<noteq> Some x) (in_memory_store st)\<rparr>))))"
proof -
  from assms(1) obtain it where "it \<in> set (in_memory_store st)" "\<not> item_id it \<noteq> Some x"
    by auto
  then have "length (filter (\<lambda>it. item_id it \<noteq> Some x) (in_memory_store st))
               < length (in_memory_store st)"
    by (rule length_filter_less)
  then have ne: "length (filter (\<lambda>it. item_id it \<noteq> Some x) (in_memory_store st))
               \<noteq> length (in_memory_store st)" by simp
  show ?thesis
    using ne assms(2) by (auto simp add: remove_item_def Let_def)
qed

lemma clear_items_store: "in_memory_store (snd (clear_items e st)) = []"
  by (simp add: clear_items_def Let_def)

text \<open>
  The paths the source provides for and that work: the fallback of \<^verbatim>\<open>add_item\<close> is
  reached when the rollback inside \<^verbatim>\<open>call_stored_procedure\<close> raises, and
  \<^verbatim>\<open>clear_items\<close> succeeds when the database is down or its block is left normally.
\<close>

lemma add_item_rollback_raises_falls_back:
  assumes "AddItemRequest_valid r"
    and "\<not> check_duplicate_in_memory (in_memory_store st)
             (req_code r) (req_unit r) (req_age r) (req_cost r)"
    and "connect_ok e"
    and "proc e = ProcDriverError m"
    and "\<not> rollback_ok e"
  shows "fst (add_item e r st)
           = Inr \<lparr>status = ''success'',
                  message = ''Item added to memory only (database unavailable)'',
                  data = Some (JObj [(''id'', JInt (req_id r)),
                                     (''total_items'', JInt (int (length (in_memory_store st)) + 1))])\<rparr>"
  using assms
  by (simp add: add_item_def call_stored_procedure_def add_memory_only_valid add_commit_def)

lemma clear_items_success:
  assumes "\<not> connect_ok e \<or> db_block_completes e"
  shows "fst (clear_items e st)
           = Inr \<lparr>status = ''success'',
                  message = ''All items cleared successfully (''
                            @ str_int (int (length (in_memory_store st))) @ '' items removed)'',
                  data = Some (JObj [(''items_cleared'', JInt (int (length (in_memory_store st))))])\<rparr>
         \<and> in_memory_store (snd (clear_items e st)) = []
         \<and> (file_write e = WriteOk \<longrightarrow>
              persistence_file (snd (clear_items e st))
                = Document (JObj [(''items'', JArr []), (''timestamp'', JStr (now e))]))"
  using assms by (auto simp add: clear_items_def Let_def save_to_file_ok)

subsection \<open>Items read back from the file; validity of the store\<close>

lemma Item_of_json_dict: "Item_valid it \<Longrightarrow> Item_of_json (dict it) = Some it"
  by (cases it; cases "item_id it") (simp_all add: dict_def new_Item_def Item_valid_def)

lemma those_Item_of_json_dict:
  "list_all Item_valid xs \<Longrightarrow> those (map (Item_of_json \<circ> dict) xs) = Some xs"
  by (induction xs) (simp_all add: Item_of_json_dict)

lemma items_of_document_saved:
  "list_all Item_valid xs \<Longrightarrow>
   items_of_document (JObj [(''items'', JArr (map dict xs)), (''timestamp'', JStr t)]) = Some xs"
  by (simp add: those_Item_of_json_dict)

lemma load_after_save:
  assumes "list_all Item_valid (in_memory_store st)" and "file_write e = WriteOk"
  shows "load_from_file (save_to_file e st) = save_to_file e st"
  using assms by (simp add: load_from_file_def save_to_file_def those_Item_of_json_dict)

lemma restart_after_save:
  assumes "list_all Item_valid xs"
  shows "in_memory_store
           (startup_event (Document (JObj [(''items'', JArr (map dict xs)),
                                           (''timestamp'', JStr t)]))) = xs"
  using assms by (simp add: startup_event_def load_from_file_def those_Item_of_json_dict)

lemma Item_of_json_valid: "Item_of_json j = Some it \<Longrightarrow> Item_valid it"
  by (cases j) (auto split: option.splits dest: new_Item_Some_valid)

lemma those_all:
  "those (map f js) = Some xs \<Longrightarrow> (\<And>j x. f j = Some x \<Longrightarrow> P x) \<Longrightarrow> list_all P xs"
  by (induction js arbitrary: xs) (auto split: option.splits)

lemma items_of_document_valid: "items_of_document d = Some xs \<Longrightarrow> list_all Item_valid xs"
  by (cases d) (auto split: option.splits json.splits intro: those_all Item_of_json_valid)

lemma load_from_file_valid:
  "list_all Item_valid (in_memory_store st) \<Longrightarrow>
   list_all Item_valid (in_memory_store (load_from_file st))"
  by (auto simp: load_from_file_def split: file_state.splits option.splits
           dest: items_of_document_valid)

lemma startup_event_valid: "list_all Item_valid (in_memory_store (startup_event f))"
  by (simp add: startup_event_def load_from_file_valid)

lemma add_item_cases:
  "in_memory_store (snd (add_item e r st)) = in_memory_store st
   \<or> (\<exists>item. Item_valid item
         \<and> in_memory_store (snd (add_item e r st)) = in_memory_store st @ [item])"
  by (auto simp: add_item_def add_memory_only_def add_commit_store Let_def
           split: sum.splits exn.splits option.splits prod.splits
           dest: new_Item_Some_valid)

lemma add_item_valid:
  "list_all Item_valid (in_memory_store st) \<Longrightarrow>
   list_all Item_valid (in_memory_store (snd (add_item e r st)))"
  using add_item_cases [of e r st] by auto

lemma remove_item_valid:
  "list_all Item_valid (in_memory_store st) \<Longrightarrow>
   list_all Item_valid (in_memory_store (snd (remove_item e x st)))"
  by (simp add: remove_item_store list_all_iff)

lemma clear_items_valid: "list_all Item_valid (in_memory_store (snd (clear_items e st)))"
  by (simp add: clear_items_store)

lemma add_item_success_file:
  assumes "add_item e r st = (Inr resp, st')" and "file_write e = WriteOk"
  shows "persistence_file st'
           = Document (JObj [(''items'', JArr (map dict (in_memory_store st'))),
                             (''timestamp'', JStr (now e))])"
  using assms
  by (auto simp: add_item_def add_memory_only_def add_commit_def Let_def save_to_file_ok
           split: if_splits sum.splits exn.splits option.splits prod.splits)

lemma remove_item_success_file:
  assumes "remove_item e x st = (Inr resp, st')" and "file_write e = WriteOk"
  shows "persistence_file st'
           = Document (JObj [(''items'', JArr (map dict (in_memory_store st'))),
                             (''timestamp'', JStr (now e))])"
  using assms
  by (auto simp: remove_item_def Let_def save_to_file_ok split: if_splits)

lemma clear_items_success_file:
  assumes "clear_items e st = (Inr resp, st')" and "file_write e = WriteOk"
  shows "persistence_file st'
           = Document (JObj [(''items'', JArr (map dict (in_memory_store st'))),
                             (''timestamp'', JStr (now e))])"
  using assms
  by (auto simp: clear_items_def Let_def save_to_file_ok split: if_splits)

section \<open>The claims\<close>

subsection \<open>C1: insert fails after a successful probe\<close>

text \<open>
  C1. The claim says that an add whose probe succeeds and whose insert call then fails with
  a driver error falls back to memory-only mode and succeeds. The code does not:
  \<^verbatim>\<open>call_stored_procedure\<close> turns the driver error into an \<^verbatim>\<open>HTTPException\<close> with
  status 500, and \<^verbatim>\<open>add_item\<close> re-raises every \<^verbatim>\<open>HTTPException\<close> before its
  fallback clause. For a request that is no duplicate, with the probe succeeding, the
  procedure call failing in the driver and the rollback returning, the request fails with
  status 500 and neither the store nor the file changes.
\<close>

theorem add_item_driver_error_is_500:
  assumes "\<not> check_duplicate_in_memory (in_memory_store st)
             (req_code r) (req_unit r) (req_age r) (req_cost r)"
    and "connect_ok e"
    and "proc e = ProcDriverError m"
    and "rollback_ok e"
  shows "fst (add_item e r st) = Inl (HTTPException 500 (''Database error: '' @ m))
         \<and> in_memory_store (snd (add_item e r st)) = in_memory_store st
         \<and> persistence_file (snd (add_item e r st)) = persistence_file st"
  using assms by (simp add: add_item_def call_stored_procedure_def)

theorem add_item_driver_error_is_500_witness:
  "fst (add_item env_insert_fails request_A1 fresh_state)
     = Inl (HTTPException 500 ''Database error: function add_call does not exist'')
   \<and> in_memory_store (snd (add_item env_insert_fails request_A1 fresh_state)) = []
   \<and> persistence_file (snd (add_item env_insert_fails request_A1 fresh_state)) = NoFile"
proof -
  have d: "\<not> check_duplicate_in_memory (in_memory_store fresh_state)
             (req_code request_A1) (req_unit request_A1) (req_age request_A1) (req_cost request_A1)"
    by (simp add: fresh_state_eq)
  have c: "connect_ok env_insert_fails" by (simp add: env_insert_fails_def)
  have p: "proc env_insert_fails = ProcDriverError ''function add_call does not exist''"
    by (simp add: env_insert_fails_def)
  have b: "rollback_ok env_insert_fails" by (simp add: env_insert_fails_def)
  from add_item_driver_error_is_500 [OF d c p b] show ?thesis
    by (simp add: fresh_state_eq)
qed

subsection \<open>C2: duplicates are rejected\<close>

lemma cost_nonneg:
  "Finite 0 \<le> cost_10_004" "Finite 0 \<le> cost_10_02"
  "Finite 0 \<le> cost_0_01" "Finite 0 \<le> cost_5e_19"
  by (simp_all add: cost_10_004_def cost_10_02_def cost_0_01_def cost_5e_19_def)

lemma state_cent_eq:
  "state_cent =
     \<lparr>in_memory_store =
        [\<lparr>item_id = Some 1, item_code = ''C3'', item_unit = 5, item_age = 2,
          item_cost = cost_0_01\<rparr>],
      persistence_file =
        Document (JObj [(''items'',
                         JArr [dict \<lparr>item_id = Some 1, item_code = ''C3'', item_unit = 5,
                                      item_age = 2, item_cost = cost_0_01\<rparr>]),
                        (''timestamp'', JStr ''2024-05-01T12:00:00'')]),
      db_log = [OpProbe]\<rparr>"
  by (simp add: state_cent_def fresh_state_eq add_item_def add_memory_only_def
        new_Item_def Item_valid_def add_commit_def save_to_file_def log_db_def
        env_db_down_def request_cent_def cost_nonneg)

text \<open>
  C2 (as stated, refuted). The claim says that an add whose code, unit and age equal those
  of a stored item and whose cost is within 0.01 of that item's cost is rejected. The store
  holds an item of cost \<^verbatim>\<open>0.01\<close>; the request has the same code, unit and age and cost
  \<^verbatim>\<open>5e-19\<close>. The two costs differ by less than one hundredth, yet the request is not
  answered as a duplicate: the add succeeds and the store grows to two items. The code
  subtracts in double precision, where \<^verbatim>\<open>0.01 - 5e-19\<close> is \<^verbatim>\<open>0.01\<close>.
\<close>

theorem add_item_within_tolerance_counterexample:
  "map item_code (in_memory_store state_cent) = [req_code request_tiny]
   \<and> map item_unit (in_memory_store state_cent) = [req_unit request_tiny]
   \<and> map item_age (in_memory_store state_cent) = [req_age request_tiny]
   \<and> map item_cost (in_memory_store state_cent)
       = [Finite (5764607523034235 / 576460752303423488)]
   \<and> req_cost request_tiny
       = Finite (1298074214633707 / 2596148429267413814265248164610048)
   \<and> \<bar>5764607523034235 / 576460752303423488
        - 1298074214633707 / 2596148429267413814265248164610048\<bar> < (1 / 100 :: rat)
   \<and> fst (add_item env_db_down request_tiny state_cent)
       = Inr \<lparr>status = ''success'',
              message = ''Item added to memory only (database unavailable)'',
              data = Some (JObj [(''id'', JInt 2), (''total_items'', JInt 2)])\<rparr>
   \<and> length (in_memory_store (snd (add_item env_db_down request_tiny state_cent))) = 2"
proof -
  have 1: "map item_code (in_memory_store state_cent) = [req_code request_tiny]"
    and 2: "map item_unit (in_memory_store state_cent) = [req_unit request_tiny]"
    and 3: "map item_age (in_memory_store state_cent) = [req_age request_tiny]"
    by (simp_all add: state_cent_eq request_tiny_def)
  have 4: "map item_cost (in_memory_store state_cent)
             = [Finite (5764607523034235 / 576460752303423488)]"
    by (simp add: state_cent_eq cost_0_01_def)
  have 5: "req_cost request_tiny
             = Finite (1298074214633707 / 2596148429267413814265248164610048)"
    by (simp add: request_tiny_def cost_5e_19_def)
  have 6: "\<bar>5764607523034235 / 576460752303423488
        - 1298074214633707 / 2596148429267413814265248164610048\<bar> < (1 / 100 :: rat)"
    by simp
  have 7: "fst (add_item env_db_down request_tiny state_cent)
       = Inr \<lparr>status = ''success'',
              message = ''Item added to memory only (database unavailable)'',
              data = Some (JObj [(''id'', JInt 2), (''total_items'', JInt 2)])\<rparr>"
    by (simp add: state_cent_eq request_tiny_def add_item_def far_cent_tiny
          add_memory_only_def new_Item_def Item_valid_def add_commit_def env_db_down_def
          cost_nonneg)
  have 8: "length (in_memory_store (snd (add_item env_db_down request_tiny state_cent))) = 2"
    by (simp add: state_cent_eq request_tiny_def add_item_def far_cent_tiny
          add_memory_only_def new_Item_def Item_valid_def add_commit_def env_db_down_def
          cost_nonneg)
  from 1 2 3 4 5 6 7 8 show ?thesis by blast
qed

text \<open>
  C2 (amended). An add whose code, unit and age equal those of an item of the store, and
  for which the test \<^verbatim>\<open>abs(item.cost - cost) < 0.01\<close>, computed in double precision, is
  true of that item, is rejected with status 400 and the duplicate message, and the state
  is unchanged. Against a store holding only \<open>{code: A1, unit: 5, age: 2, cost: 10.00}\<close>,
  cost \<^verbatim>\<open>10.004\<close> is rejected; cost \<^verbatim>\<open>10.02\<close> is added, memory-only when the database
  is down and with the row's id when the procedure accepts it.
\<close>

theorem add_item_duplicate_rejected:
  "((\<exists>it \<in> set (in_memory_store st).
        item_code it = req_code r \<and> item_unit it = req_unit r \<and> item_age it = req_age r
        \<and> float_lt (float_abs (float_sub (item_cost it) (req_cost r))) float_0_01)
     \<longrightarrow> add_item e r st
           = (Inl (HTTPException 400 ''Duplicate item detected in memory store''), st))
   \<and> (in_memory_store st
         = [\<lparr>item_id = i, item_code = ''A1'', item_unit = 5, item_age = 2,
             item_cost = Finite 10\<rparr>]
     \<longrightarrow> add_item e \<lparr>req_id = j, req_code = ''A1'', req_unit = 5, req_age = 2,
                       req_cost = cost_10_004\<rparr> st
           = (Inl (HTTPException 400 ''Duplicate item detected in memory store''), st)
       \<and> (\<not> connect_ok e \<longrightarrow>
            fst (add_item e \<lparr>req_id = j, req_code = ''A1'', req_unit = 5, req_age = 2,
                              req_cost = cost_10_02\<rparr> st)
              = Inr \<lparr>status = ''success'',
                     message = ''Item added to memory only (database unavailable)'',
                     data = Some (JObj [(''id'', JInt j), (''total_items'', JInt 2)])\<rparr>
            \<and> in_memory_store
                 (snd (add_item e \<lparr>req_id = j, req_code = ''A1'', req_unit = 5, req_age = 2,
                                    req_cost = cost_10_02\<rparr> st))
              = [\<lparr>item_id = i, item_code = ''A1'', item_unit = 5, item_age = 2,
                  item_cost = Finite 10\<rparr>,
                 \<lparr>item_id = Some j, item_code = ''A1'', item_unit = 5, item_age = 2,
                   item_cost = cost_10_02\<rparr>])
       \<and> (connect_ok e \<and> proc e = ProcRow n s m \<and> s \<noteq> 0 \<longrightarrow>
            fst (add_item e \<lparr>req_id = j, req_code = ''A1'', req_unit = 5, req_age = 2,
                              req_cost = cost_10_02\<rparr> st)
              = Inr \<lparr>status = ''success'', message = m,
                     data = Some (JObj [(''id'', case n of None \<Rightarrow> JNull | Some d \<Rightarrow> JInt d),
                                        (''total_items'', JInt 2)])\<rparr>
            \<and> in_memory_store
                 (snd (add_item e \<lparr>req_id = j, req_code = ''A1'', req_unit = 5, req_age = 2,
                                    req_cost = cost_10_02\<rparr> st))
              = [\<lparr>item_id = i, item_code = ''A1'', item_unit = 5, item_age = 2,
                  item_cost = Finite 10\<rparr>,
                 \<lparr>item_id = n, item_code = ''A1'', item_unit = 5, item_age = 2,
                   item_cost = cost_10_02\<rparr>]))"
proof (intro conjI impI)
  assume "\<exists>it \<in> set (in_memory_store st).
        item_code it = req_code r \<and> item_unit it = req_unit r \<and> item_age it = req_age r
        \<and> float_lt (float_abs (float_sub (item_cost it) (req_cost r))) float_0_01"
  then have "check_duplicate_in_memory (in_memory_store st)
               (req_code r) (req_unit r) (req_age r) (req_cost r)"
    by (simp only: check_duplicate_in_memory_iff)
  then show "add_item e r st
           = (Inl (HTTPException 400 ''Duplicate item detected in memory store''), st)"
    by (simp add: add_item_def)
next
  assume "in_memory_store st
         = [\<lparr>item_id = i, item_code = ''A1'', item_unit = 5, item_age = 2,
             item_cost = Finite 10\<rparr>]"
  then show "add_item e \<lparr>req_id = j, req_code = ''A1'', req_unit = 5, req_age = 2,
                       req_cost = cost_10_004\<rparr> st
           = (Inl (HTTPException 400 ''Duplicate item detected in memory store''), st)"
    by (simp add: add_item_def near_10_10004)
next
  assume s: "in_memory_store st
         = [\<lparr>item_id = i, item_code = ''A1'', item_unit = 5, item_age = 2,
             item_cost = Finite 10\<rparr>]"
    and off: "\<not> connect_ok e"
  show "fst (add_item e \<lparr>req_id = j, req_code = ''A1'', req_unit = 5, req_age = 2,
                              req_cost = cost_10_02\<rparr> st)
              = Inr \<lparr>status = ''success'',
                     message = ''Item added to memory only (database unavailable)'',
                     data = Some (JObj [(''id'', JInt j), (''total_items'', JInt 2)])\<rparr>"
    using s off
    by (simp add: add_item_def far_10_1002 add_memory_only_def new_Item_def Item_valid_def
          add_commit_def cost_nonneg)
  show "in_memory_store
                 (snd (add_item e \<lparr>req_id = j, req_code = ''A1'', req_unit = 5, req_age = 2,
                                    req_cost = cost_10_02\<rparr> st))
              = [\<lparr>item_id = i, item_code = ''A1'', item_unit = 5, item_age = 2,
                  item_cost = Finite 10\<rparr>,
                 \<lparr>item_id = Some j, item_code = ''A1'', item_unit = 5, item_age = 2,
                   item_cost = cost_10_02\<rparr>]"
    using s off
    by (simp add: add_item_def far_10_1002 add_memory_only_def new_Item_def Item_valid_def
          add_commit_def cost_nonneg)
next
  assume s: "in_memory_store st
         = [\<lparr>item_id = i, item_code = ''A1'', item_unit = 5, item_age = 2,
             item_cost = Finite 10\<rparr>]"
    and on: "connect_ok e \<and> proc e = ProcRow n s m \<and> s \<noteq> 0"
  show "fst (add_item e \<lparr>req_id = j, req_code = ''A1'', req_unit = 5, req_age = 2,
                              req_cost = cost_10_02\<rparr> st)
              = Inr \<lparr>status = ''success'', message = m,
                     data = Some (JObj [(''id'', case n of None \<Rightarrow> JNull | Some d \<Rightarrow> JInt d),
                                        (''total_items'', JInt 2)])\<rparr>"
    using s on
    by (simp add: add_item_def far_10_1002 call_stored_procedure_def new_Item_def
          Item_valid_def add_commit_def cost_nonneg)
  show "in_memory_store
                 (snd (add_item e \<lparr>req_id = j, req_code = ''A1'', req_unit = 5, req_age = 2,
                                    req_cost = cost_10_02\<rparr> st))
              = [\<lparr>item_id = i, item_code = ''A1'', item_unit = 5, item_age = 2,
                  item_cost = Finite 10\<rparr>,
                 \<lparr>item_id = n, item_code = ''A1'', item_unit = 5, item_age = 2,
                   item_cost = cost_10_02\<rparr>]"
    using s on
    by (simp add: add_item_def far_10_1002 call_stored_procedure_def new_Item_def
          Item_valid_def add_commit_def cost_nonneg)
qed

theorem add_item_duplicate_rejected_witness:
  "(\<exists>it \<in> set (in_memory_store state_A1).
       item_code it = ''A1'' \<and> item_unit it = 5 \<and> item_age it = 2
       \<and> float_lt (float_abs (float_sub (item_cost it) cost_10_004)) float_0_01)
   \<and> add_item env_db_down
         \<lparr>req_id = 8, req_code = ''A1'', req_unit = 5, req_age = 2, req_cost = cost_10_004\<rparr>
         state_A1
       = (Inl (HTTPException 400 ''Duplicate item detected in memory store''), state_A1)
   \<and> fst (add_item env_db_down
              \<lparr>req_id = 8, req_code = ''A1'', req_unit = 5, req_age = 2, req_cost = cost_10_02\<rparr>
              state_A1)
       = Inr \<lparr>status = ''success'',
              message = ''Item added to memory only (database unavailable)'',
              data = Some (JObj [(''id'', JInt 8), (''total_items'', JInt 2)])\<rparr>
   \<and> fst (add_item env_insert_accepted
              \<lparr>req_id = 8, req_code = ''A1'', req_unit = 5, req_age = 2, req_cost = cost_10_02\<rparr>
              state_A1)
       = Inr \<lparr>status = ''success'', message = ''Item added successfully'',
              data = Some (JObj [(''id'', JInt 42), (''total_items'', JInt 2)])\<rparr>"
proof -
  have s: "in_memory_store state_A1
             = [\<lparr>item_id = Some 7, item_code = ''A1'', item_unit = 5, item_age = 2,
                  item_cost = Finite 10\<rparr>]"
    by (simp add: state_A1_eq item_A1_def)
  have d: "\<exists>it \<in> set (in_memory_store state_A1).
       item_code it = ''A1'' \<and> item_unit it = 5 \<and> item_age it = 2
       \<and> float_lt (float_abs (float_sub (item_cost it) cost_10_004)) float_0_01"
    by (simp add: s near_10_10004)
  have off: "\<not> connect_ok env_db_down" by (simp add: env_db_down_def)
  have on: "connect_ok env_insert_accepted
            \<and> proc env_insert_accepted = ProcRow (Some 42) 1 ''Item added successfully''
            \<and> (1::int) \<noteq> 0"
    by (simp add: env_insert_accepted_def)
  from add_item_duplicate_rejected
         [where st = state_A1 and e = env_db_down and i = "Some 7" and j = 8
            and r = "\<lparr>req_id = 8, req_code = ''A1'', req_unit = 5, req_age = 2,
                       req_cost = cost_10_004\<rparr>"]
       s d off
  have 1: "add_item env_db_down
         \<lparr>req_id = 8, req_code = ''A1'', req_unit = 5, req_age = 2, req_cost = cost_10_004\<rparr>
         state_A1
       = (Inl (HTTPException 400 ''Duplicate item detected in memory store''), state_A1)"
    and 2: "fst (add_item env_db_down
              \<lparr>req_id = 8, req_code = ''A1'', req_unit = 5, req_age = 2, req_cost = cost_10_02\<rparr>
              state_A1)
       = Inr \<lparr>status = ''success'',
              message = ''Item added to memory only (database unavailable)'',
              data = Some (JObj [(''id'', JInt 8), (''total_items'', JInt 2)])\<rparr>"
    by blast+
  from add_item_duplicate_rejected
         [where st = state_A1 and e = env_insert_accepted and i = "Some 7" and j = 8
            and n = "Some 42" and s = 1 and m = "''Item added successfully''"]
       s on
  have 3: "fst (add_item env_insert_accepted
              \<lparr>req_id = 8, req_code = ''A1'', req_unit = 5, req_age = 2, req_cost = cost_10_02\<rparr>
              state_A1)
       = Inr \<lparr>status = ''success'', message = ''Item added successfully'',
              data = Some (JObj [(''id'', JInt 42), (''total_items'', JInt 2)])\<rparr>"
    by simp
  from d 1 2 3 show ?thesis by blast
qed

subsection \<open>C3: removing a present id\<close>

text \<open>
  C3 (as stated, refuted). The claim says that removing a present id decreases the size of the store by
  exactly one. In the store reached by two memory-only adds with id 7, one remove request
  for 7 succeeds and takes the size from 2 to 0.
\<close>

theorem remove_item_exactly_one_counterexample:
  "map item_id (in_memory_store state_shared_id) = [Some 7, Some 7]
   \<and> fst (remove_item env_db_down 7 state_shared_id)
       = Inr \<lparr>status = ''success'', message = ''Item 7 removed successfully'',
              data = Some (JObj [(''remaining_items'', JInt 0)])\<rparr>
   \<and> length (in_memory_store state_shared_id) = 2
   \<and> length (in_memory_store (snd (remove_item env_db_down 7 state_shared_id))) = 0
   \<and> length (in_memory_store (snd (remove_item env_db_down 7 state_shared_id))) + 1
       \<noteq> length (in_memory_store state_shared_id)"
  by (simp add: state_shared_id_eq item_A1_def item_B2_def remove_item_def Let_def
        env_db_down_def save_to_file_def log_db_def str_int_def str_nat.simps)

text \<open>
  C3 (amended). When the store holds at least one item with id \<open>x\<close>, a remove request for
  \<open>x\<close> leaves exactly the items whose id differs from \<open>x\<close>: the size decreases by the
  number of items bearing \<open>x\<close>, which is at least one; the request is not answered
  "not found"; \<open>x\<close> occurs in no snapshot of the resulting state; and the request
  succeeds, reporting the new size, whenever the database is down or the database block
  is left normally.
\<close>

theorem remove_item_present_removes_all:
  assumes "\<exists>it \<in> set (in_memory_store st). item_id it = Some x"
  shows "in_memory_store (snd (remove_item e x st))
           = filter (\<lambda>it. item_id it \<noteq> Some x) (in_memory_store st)
         \<and> length (in_memory_store (snd (remove_item e x st)))
             + length (filter (\<lambda>it. item_id it = Some x) (in_memory_store st))
           = length (in_memory_store st)
         \<and> 1 \<le> length (filter (\<lambda>it. item_id it = Some x) (in_memory_store st))
         \<and> fst (remove_item e x st) \<noteq> Inl (HTTPException 404 ''Item not found in memory'')
         \<and> (\<forall>sb. \<exists>its. fst (get_snapshot sb (snd (remove_item e x st))) = Inr its
                    \<and> (\<forall>it \<in> set its. item_id it \<noteq> Some x))
         \<and> (\<not> connect_ok e \<or> db_block_completes e \<longrightarrow>
              fst (remove_item e x st)
                = Inr \<lparr>status = ''success'',
                       message = ''Item '' @ str_int x @ '' removed successfully'',
                       data = Some (JObj [(''remaining_items'',
                                JInt (int (length (in_memory_store (snd (remove_item e x st))))))])\<rparr>)"
proof (intro conjI allI impI)
  show s: "in_memory_store (snd (remove_item e x st))
           = filter (\<lambda>it. item_id it \<noteq> Some x) (in_memory_store st)"
    by (rule remove_item_store)
  have "length (filter (\<lambda>it. item_id it = Some x) (in_memory_store st))
          + length (filter (\<lambda>it. \<not> item_id it = Some x) (in_memory_store st))
        = length (in_memory_store st)"
    by (rule sum_length_filter_compl)
  then show "length (in_memory_store (snd (remove_item e x st)))
             + length (filter (\<lambda>it. item_id it = Some x) (in_memory_store st))
           = length (in_memory_store st)"
    by (simp add: s)
  from assms have "filter (\<lambda>it. item_id it = Some x) (in_memory_store st) \<noteq> []"
    by (simp add: filter_empty_conv)
  then show one: "1 \<le> length (filter (\<lambda>it. item_id it = Some x) (in_memory_store st))"
    by (cases "filter (\<lambda>it. item_id it = Some x) (in_memory_store st)") simp_all
  from assms obtain it where "it \<in> set (in_memory_store st)" "\<not> item_id it \<noteq> Some x"
    by auto
  then have "length (filter (\<lambda>it. item_id it \<noteq> Some x) (in_memory_store st))
               < length (in_memory_store st)"
    by (rule length_filter_less)
  then show "fst (remove_item e x st) \<noteq> Inl (HTTPException 404 ''Item not found in memory'')"
    by (simp add: remove_item_def Let_def)
next
  fix sb
  show "\<exists>its. fst (get_snapshot sb (snd (remove_item e x st))) = Inr its
                    \<and> (\<forall>it \<in> set its. item_id it \<noteq> Some x)"
    by (simp add: get_snapshot_eq remove_item_store)
next
  assume "\<not> connect_ok e \<or> db_block_completes e"
  with assms show "fst (remove_item e x st)
                = Inr \<lparr>status = ''success'',
                       message = ''Item '' @ str_int x @ '' removed successfully'',
                       data = Some (JObj [(''remaining_items'',
                                JInt (int (length (in_memory_store (snd (remove_item e x st))))))])\<rparr>"
    by (simp add: remove_item_success remove_item_store)
qed

theorem remove_item_present_removes_all_witness:
  "(\<exists>it \<in> set (in_memory_store state_shared_id). item_id it = Some 7)
   \<and> in_memory_store (snd (remove_item env_db_down 7 state_shared_id)) = []
   \<and> length (filter (\<lambda>it. item_id it = Some 7) (in_memory_store state_shared_id)) = 2
   \<and> fst (get_snapshot By_cost (snd (remove_item env_db_down 7 state_shared_id))) = Inr []
   \<and> fst (remove_item env_db_down 7 state_shared_id)
       = Inr \<lparr>status = ''success'', message = ''Item 7 removed successfully'',
              data = Some (JObj [(''remaining_items'', JInt 0)])\<rparr>"
proof -
  have a: "\<exists>it \<in> set (in_memory_store state_shared_id). item_id it = Some 7"
    by (simp add: state_shared_id_eq item_A1_def)
  have f: "filter (\<lambda>it. item_id it \<noteq> Some 7) (in_memory_store state_shared_id) = []"
    by (simp add: state_shared_id_eq item_A1_def item_B2_def)
  have g: "filter (\<lambda>it. item_id it = Some 7) (in_memory_store state_shared_id) = [item_A1, item_B2]"
    by (simp add: state_shared_id_eq item_A1_def item_B2_def)
  have c: "\<not> connect_ok env_db_down" by (simp add: env_db_down_def)
  have t: "str_int 7 = ''7''" by (simp add: str_int_def str_nat.simps)
  from remove_item_present_removes_all [OF a, of env_db_down] a c show ?thesis
    by (simp add: f g t get_snapshot_eq)
qed

subsection \<open>C4: snapshot\<close>

text \<open>
  C4. For every store and every sort field, the snapshot is a permutation of the store,
  non-decreasing in the field, with items of equal key in their order of the store; an
  empty store gives an empty sequence; and the state (store, file, database log) is
  returned as it was.
\<close>

theorem get_snapshot_sorted_stable_permutation:
  "\<exists>its. get_snapshot sb st = (Inr its, st)
      \<and> mset its = mset (in_memory_store st)
      \<and> sorted (map (getattr sb) its)
      \<and> (sb = By_unit \<longrightarrow> sorted (map item_unit its))
      \<and> (sb = By_age \<longrightarrow> sorted (map item_age its))
      \<and> (sb = By_cost \<longrightarrow> sorted (map item_cost its))
      \<and> (\<forall>k. filter (\<lambda>x. getattr sb x = k) its
               = filter (\<lambda>x. getattr sb x = k) (in_memory_store st))
      \<and> (in_memory_store st = [] \<longrightarrow> its = [])"
proof -
  let ?its = "sort_key (getattr sb) (in_memory_store st)"
  have srt: "sorted (map (getattr sb) ?its)" by (rule sorted_sort_key)
  have u: "sb = By_unit \<longrightarrow> sorted (map item_unit ?its)"
  proof
    assume "sb = By_unit"
    then have "getattr sb = (\<lambda>x. Finite (of_int (item_unit x)))" by (simp add: fun_eq_iff)
    with srt show "sorted (map item_unit ?its)" by (simp add: sorted_map)
  qed
  have a: "sb = By_age \<longrightarrow> sorted (map item_age ?its)"
  proof
    assume "sb = By_age"
    then have "getattr sb = (\<lambda>x. Finite (of_int (item_age x)))" by (simp add: fun_eq_iff)
    with srt show "sorted (map item_age ?its)" by (simp add: sorted_map)
  qed
  have c: "sb = By_cost \<longrightarrow> sorted (map item_cost ?its)"
  proof
    assume "sb = By_cost"
    then have "getattr sb = item_cost" by (simp add: fun_eq_iff)
    with srt show "sorted (map item_cost ?its)" by simp
  qed
  have st: "\<forall>k. filter (\<lambda>x. getattr sb x = k) ?its
               = filter (\<lambda>x. getattr sb x = k) (in_memory_store st)"
    by (simp add: sort_key_stable)
  have "get_snapshot sb st = (Inr ?its, st)" by (rule get_snapshot_eq)
  moreover have "mset ?its = mset (in_memory_store st)" by simp
  moreover have "in_memory_store st = [] \<longrightarrow> ?its = []" by simp
  ultimately show ?thesis using srt u a c st by blast
qed

theorem get_snapshot_sorted_stable_permutation_witness:
  "get_snapshot By_cost state_shared_id = (Inr [item_B2, item_A1], state_shared_id)
   \<and> get_snapshot By_age state_shared_id = (Inr [item_A1, item_B2], state_shared_id)
   \<and> get_snapshot By_unit fresh_state = (Inr [], fresh_state)"
proof -
  have c: "sort_key (getattr By_cost) (in_memory_store state_shared_id) = [item_B2, item_A1]"
    by (simp add: state_shared_id_eq item_A1_def item_B2_def)
  have a: "sort_key (getattr By_age) (in_memory_store state_shared_id) = [item_A1, item_B2]"
    by (simp add: state_shared_id_eq item_A1_def item_B2_def)
  from get_snapshot_sorted_stable_permutation [of By_cost state_shared_id]
  obtain its where 1: "get_snapshot By_cost state_shared_id = (Inr its, state_shared_id)" by blast
  from get_snapshot_sorted_stable_permutation [of By_age state_shared_id]
  obtain its' where 2: "get_snapshot By_age state_shared_id = (Inr its', state_shared_id)" by blast
  from get_snapshot_sorted_stable_permutation [of By_unit fresh_state]
  obtain its'' where 3: "get_snapshot By_unit fresh_state = (Inr its'', fresh_state)"
     and "in_memory_store fresh_state = [] \<longrightarrow> its'' = []" by blast
  then have 4: "its'' = []" by (simp add: fresh_state_eq)
  from 1 have "its = [item_B2, item_A1]" by (simp add: get_snapshot_eq c)
  moreover from 2 have "its' = [item_A1, item_B2]" by (simp add: get_snapshot_eq a)
  ultimately show ?thesis using 1 2 3 4 by simp
qed

subsection \<open>C5: load after save\<close>

text \<open>
  C5. For a store of items that satisfy the constraints of \<^verbatim>\<open>Item\<close> (every store the
  handlers and the loader build is one, see \<open>startup_event_valid\<close>, \<open>add_item_valid\<close>,
  \<open>remove_item_valid\<close> and \<open>clear_items_valid\<close>) and a write that goes through, loading
  after saving changes nothing, and a restart from the saved file reproduces the store; the
  same holds for the file left by every add, remove and clear that returns success.
\<close>

theorem load_after_save_roundtrip:
  assumes "list_all Item_valid (in_memory_store st)" and "file_write e = WriteOk"
  shows "load_from_file (save_to_file e st) = save_to_file e st
         \<and> in_memory_store (load_from_file (save_to_file e st)) = in_memory_store st
         \<and> in_memory_store (startup_event (persistence_file (save_to_file e st)))
             = in_memory_store st
         \<and> (\<forall>r resp st'. add_item e r st = (Inr resp, st') \<longrightarrow>
               in_memory_store (startup_event (persistence_file st')) = in_memory_store st')
         \<and> (\<forall>x resp st'. remove_item e x st = (Inr resp, st') \<longrightarrow>
               in_memory_store (startup_event (persistence_file st')) = in_memory_store st')
         \<and> (\<forall>resp st'. clear_items e st = (Inr resp, st') \<longrightarrow>
               in_memory_store (startup_event (persistence_file st')) = in_memory_store st')"
proof (intro conjI allI impI)
  show l: "load_from_file (save_to_file e st) = save_to_file e st"
    using assms by (rule load_after_save)
  show "in_memory_store (load_from_file (save_to_file e st)) = in_memory_store st"
    by (simp add: l)
  show "in_memory_store (startup_event (persistence_file (save_to_file e st)))
             = in_memory_store st"
    using assms by (simp add: save_to_file_ok restart_after_save)
next
  fix r resp st'
  assume a: "add_item e r st = (Inr resp, st')"
  from assms(1) have "list_all Item_valid (in_memory_store (snd (add_item e r st)))"
    by (rule add_item_valid)
  with a have "list_all Item_valid (in_memory_store st')" by simp
  then show "in_memory_store (startup_event (persistence_file st')) = in_memory_store st'"
    by (simp add: add_item_success_file [OF a assms(2)] restart_after_save)
next
  fix x resp st'
  assume a: "remove_item e x st = (Inr resp, st')"
  from assms(1) have "list_all Item_valid (in_memory_store (snd (remove_item e x st)))"
    by (rule remove_item_valid)
  with a have "list_all Item_valid (in_memory_store st')" by simp
  then show "in_memory_store (startup_event (persistence_file st')) = in_memory_store st'"
    by (simp add: remove_item_success_file [OF a assms(2)] restart_after_save)
next
  fix resp st'
  assume a: "clear_items e st = (Inr resp, st')"
  have "list_all Item_valid (in_memory_store (snd (clear_items e st)))"
    by (rule clear_items_valid)
  with a have "list_all Item_valid (in_memory_store st')" by simp
  then show "in_memory_store (startup_event (persistence_file st')) = in_memory_store st'"
    by (simp add: clear_items_success_file [OF a assms(2)] restart_after_save)
qed

theorem load_after_save_roundtrip_witness:
  "list_all Item_valid [item_A1, item_B2]
   \<and> file_write env_db_down = WriteOk
   \<and> in_memory_store
       (startup_event
          (persistence_file
             (save_to_file env_db_down
                \<lparr>in_memory_store = [item_A1, item_B2], persistence_file = NoFile, db_log = []\<rparr>)))
     = [item_A1, item_B2]"
proof -
  have v: "list_all Item_valid
             (in_memory_store \<lparr>in_memory_store = [item_A1, item_B2], persistence_file = NoFile,
                               db_log = []\<rparr>)"
    by (simp add: Item_valid_def item_A1_def item_B2_def)
  have w: "file_write env_db_down = WriteOk" by (simp add: env_db_down_def)
  from load_after_save_roundtrip [OF v w] v w show ?thesis by simp
qed

subsection \<open>C6: add while the database is unreachable\<close>

text \<open>
  C6. A well-formed add request that is no duplicate, issued while the probe fails, succeeds:
  the response carries the client's id, the new count and the memory-only message; the item
  with the client's id is appended to the store; only the probe touched the database; and
  when the write goes through the file holds the new store.
\<close>

theorem add_item_db_unreachable:
  assumes "AddItemRequest_valid r"
    and "\<not> check_duplicate_in_memory (in_memory_store st)
             (req_code r) (req_unit r) (req_age r) (req_cost r)"
    and "\<not> connect_ok e"
  shows "fst (add_item e r st)
           = Inr \<lparr>status = ''success'',
                  message = ''Item added to memory only (database unavailable)'',
                  data = Some (JObj [(''id'', JInt (req_id r)),
                                     (''total_items'', JInt (int (length (in_memory_store st)) + 1))])\<rparr>
         \<and> in_memory_store (snd (add_item e r st))
             = in_memory_store st
               @ [\<lparr>item_id = Some (req_id r), item_code = req_code r, item_unit = req_unit r,
                    item_age = req_age r, item_cost = req_cost r\<rparr>]
         \<and> db_log (snd (add_item e r st)) = db_log st @ [OpProbe]
         \<and> (file_write e = WriteOk \<longrightarrow>
              persistence_file (snd (add_item e r st))
                = Document (JObj [(''items'', JArr (map dict (in_memory_store (snd (add_item e r st))))),
                                  (''timestamp'', JStr (now e))]))"
proof -
  have eq: "add_item e r st =
      add_commit e \<lparr>item_id = Some (req_id r), item_code = req_code r, item_unit = req_unit r,
                    item_age = req_age r, item_cost = req_cost r\<rparr>
       ''Item added to memory only (database unavailable)'' (log_db OpProbe st)"
    using assms by (simp add: add_item_def add_memory_only_valid)
  show ?thesis
    unfolding eq by (simp add: add_commit_def save_to_file_ok)
qed

theorem add_item_db_unreachable_witness:
  "AddItemRequest_valid request_A1
   \<and> \<not> check_duplicate_in_memory (in_memory_store fresh_state) ''A1'' 5 2 (Finite 10)
   \<and> \<not> connect_ok env_db_down
   \<and> add_item env_db_down request_A1 fresh_state
       = (Inr \<lparr>status = ''success'',
               message = ''Item added to memory only (database unavailable)'',
               data = Some (JObj [(''id'', JInt 7), (''total_items'', JInt 1)])\<rparr>,
          \<lparr>in_memory_store = [item_A1],
           persistence_file =
             Document (JObj [(''items'', JArr [dict item_A1]),
                             (''timestamp'', JStr ''2024-05-01T12:00:00'')]),
           db_log = [OpProbe]\<rparr>)"
proof -
  have v: "AddItemRequest_valid request_A1"
    by (simp add: AddItemRequest_valid_def request_A1_def)
  have d: "\<not> check_duplicate_in_memory (in_memory_store fresh_state)
             (req_code request_A1) (req_unit request_A1) (req_age request_A1) (req_cost request_A1)"
    by (simp add: fresh_state_eq)
  have c: "\<not> connect_ok env_db_down" by (simp add: env_db_down_def)
  have w: "file_write env_db_down = WriteOk" by (simp add: env_db_down_def)
  obtain res st' where p: "add_item env_db_down request_A1 fresh_state = (res, st')"
    by (cases "add_item env_db_down request_A1 fresh_state")
  from add_item_db_unreachable [OF v d c] w p
  have "res = Inr \<lparr>status = ''success'',
               message = ''Item added to memory only (database unavailable)'',
               data = Some (JObj [(''id'', JInt 7), (''total_items'', JInt 1)])\<rparr>"
    and "in_memory_store st' = [item_A1]"
    and "db_log st' = [OpProbe]"
    and "persistence_file st' = Document (JObj [(''items'', JArr [dict item_A1]),
                             (''timestamp'', JStr ''2024-05-01T12:00:00'')])"
    by (simp_all add: fresh_state_eq request_A1_def item_A1_def env_db_down_def)
  then have "st' = \<lparr>in_memory_store = [item_A1],
           persistence_file =
             Document (JObj [(''items'', JArr [dict item_A1]),
                             (''timestamp'', JStr ''2024-05-01T12:00:00'')]),
           db_log = [OpProbe]\<rparr>" by (cases st') simp
  with \<open>res = _\<close> p v c show ?thesis
    by (simp add: fresh_state_eq)
qed

subsection \<open>C7: the procedure rejects the row\<close>

text \<open>
  C7. When the procedure is called (the request is no duplicate and the probe succeeds) and
  returns status 0, the request fails with status 400 and the procedure's message, and
  neither the store nor the file changes.
\<close>

theorem add_item_status_zero_rejected:
  assumes "\<not> check_duplicate_in_memory (in_memory_store st)
             (req_code r) (req_unit r) (req_age r) (req_cost r)"
    and "connect_ok e"
    and "proc e = ProcRow n 0 m"
  shows "fst (add_item e r st) = Inl (HTTPException 400 m)
         \<and> in_memory_store (snd (add_item e r st)) = in_memory_store st
         \<and> persistence_file (snd (add_item e r st)) = persistence_file st"
  using assms by (simp add: add_item_def call_stored_procedure_def)

theorem add_item_status_zero_rejected_witness:
  "add_item env_insert_rejected request_A1 fresh_state
     = (Inl (HTTPException 400 ''Item already exists''),
        \<lparr>in_memory_store = [], persistence_file = NoFile,
         db_log = [OpProbe, OpInsert ''A1'' 5 2 (Finite 10)]\<rparr>)"
proof -
  have d: "\<not> check_duplicate_in_memory (in_memory_store fresh_state)
             (req_code request_A1) (req_unit request_A1) (req_age request_A1) (req_cost request_A1)"
    by (simp add: fresh_state_eq)
  have c: "connect_ok env_insert_rejected" by (simp add: env_insert_rejected_def)
  have p: "proc env_insert_rejected = ProcRow None 0 ''Item already exists''"
    by (simp add: env_insert_rejected_def)
  have l: "db_log (snd (add_item env_insert_rejected request_A1 fresh_state))
             = [OpProbe, OpInsert ''A1'' 5 2 (Finite 10)]"
    by (simp add: add_item_def call_stored_procedure_def fresh_state_eq request_A1_def
          env_insert_rejected_def)
  from add_item_status_zero_rejected [OF d c p] l show ?thesis
    by (cases "add_item env_insert_rejected request_A1 fresh_state";
        cases "snd (add_item env_insert_rejected request_A1 fresh_state)")
       (simp add: fresh_state_eq)
qed

subsection \<open>C8: removing an absent id\<close>

text \<open>
  C8. When no item of the store has id \<open>x\<close>, a remove request for \<open>x\<close> is answered with
  status 404 whatever the environment, and the whole state is as before: store, file and
  database log (no database operation was started).
\<close>

theorem remove_item_absent_not_found:
  assumes "\<forall>it \<in> set (in_memory_store st). item_id it \<noteq> Some x"
  shows "remove_item e x st = (Inl (HTTPException 404 ''Item not found in memory''), st)"
proof -
  have "filter (\<lambda>item. item_id item \<noteq> Some x) (in_memory_store st) = in_memory_store st"
    using assms by (simp add: filter_id_conv)
  then show ?thesis by (simp add: remove_item_def Let_def)
qed

theorem remove_item_absent_not_found_witness:
  "Some 8 \<notin> set (map item_id (in_memory_store state_shared_id))
   \<and> remove_item env_reconnect_refused 8 state_shared_id
       = (Inl (HTTPException 404 ''Item not found in memory''), state_shared_id)"
proof -
  have a: "\<forall>it \<in> set (in_memory_store state_shared_id). item_id it \<noteq> Some 8"
    by (simp add: state_shared_id_eq item_A1_def item_B2_def)
  have b: "Some 8 \<notin> set (map item_id (in_memory_store state_shared_id))"
    by (simp add: state_shared_id_eq item_A1_def item_B2_def)
  from b remove_item_absent_not_found [OF a] show ?thesis by simp
qed

subsection \<open>C9: clear\<close>

text \<open>
  C9. The claim says that clear succeeds unconditionally and persists the empty store. The
  code does not when the probe succeeds and the database block is then left by an
  exception (the connection is refused, the cursor cannot be made, or the rollback raises):
  the request fails with status 500, the store is emptied and the file is not written.
\<close>

theorem clear_items_fails_after_probe:
  assumes "connect_ok e" and "\<not> db_block_completes e"
  shows "clear_items e st
           = (Inl (HTTPException 500 ''Failed to clear items''),
              st\<lparr>in_memory_store := [], db_log := db_log st @ [OpProbe, OpTruncate]\<rparr>)"
  using assms by (simp add: clear_items_def Let_def log_db_def)

theorem clear_items_fails_after_probe_witness:
  "clear_items env_reconnect_refused state_shared_id
     = (Inl (HTTPException 500 ''Failed to clear items''),
        \<lparr>in_memory_store = [],
         persistence_file =
           Document (JObj [(''items'', JArr [dict item_A1, dict item_B2]),
                           (''timestamp'', JStr ''2024-05-01T12:00:00'')]),
         db_log = [OpProbe, OpProbe, OpProbe, OpTruncate]\<rparr>)"
proof -
  have c: "connect_ok env_reconnect_refused" by (simp add: env_reconnect_refused_def)
  have b: "\<not> db_block_completes env_reconnect_refused"
    by (simp add: env_reconnect_refused_def db_block_completes_def)
  from clear_items_fails_after_probe [OF c b, of state_shared_id] show ?thesis
    by (simp add: state_shared_id_eq)
qed

subsection \<open>C10: shared ids\<close>

text \<open>
  C10. A memory-only add appends the item under the client's id whatever ids the store
  holds; the duplicate check does not depend on the ids of the stored items; the store
  reached by two such adds holds two items with id 7; and a remove request leaves exactly
  the items whose id differs from the requested one, so that one request deletes them all.
\<close>

theorem shared_ids_remove_deletes_all:
  "(AddItemRequest_valid r
      \<and> \<not> check_duplicate_in_memory (in_memory_store st)
            (req_code r) (req_unit r) (req_age r) (req_cost r)
      \<and> \<not> connect_ok e
    \<longrightarrow> (\<exists>resp. fst (add_item e r st) = Inr resp)
        \<and> in_memory_store (snd (add_item e r st))
            = in_memory_store st
              @ [\<lparr>item_id = Some (req_id r), item_code = req_code r, item_unit = req_unit r,
                   item_age = req_age r, item_cost = req_cost r\<rparr>])
   \<and> check_duplicate_in_memory (map (\<lambda>it. it\<lparr>item_id := f it\<rparr>) (in_memory_store st)) c u a k
       = check_duplicate_in_memory (in_memory_store st) c u a k
   \<and> map item_id (in_memory_store state_shared_id) = [Some 7, Some 7]
   \<and> in_memory_store (snd (remove_item e x st))
       = filter (\<lambda>it. item_id it \<noteq> Some x) (in_memory_store st)
   \<and> (\<forall>it \<in> set (in_memory_store (snd (remove_item e x st))). item_id it \<noteq> Some x)
   \<and> in_memory_store (snd (remove_item e 7 state_shared_id)) = []"
proof (intro conjI impI)
  assume a: "AddItemRequest_valid r
      \<and> \<not> check_duplicate_in_memory (in_memory_store st)
            (req_code r) (req_unit r) (req_age r) (req_cost r)
      \<and> \<not> connect_ok e"
  then have eq: "add_item e r st =
      add_commit e \<lparr>item_id = Some (req_id r), item_code = req_code r, item_unit = req_unit r,
                    item_age = req_age r, item_cost = req_cost r\<rparr>
       ''Item added to memory only (database unavailable)'' (log_db OpProbe st)"
    by (simp add: add_item_offline)
  show "\<exists>resp. fst (add_item e r st) = Inr resp"
    unfolding eq by (simp add: add_commit_def Let_def)
  show "in_memory_store (snd (add_item e r st))
            = in_memory_store st
              @ [\<lparr>item_id = Some (req_id r), item_code = req_code r, item_unit = req_unit r,
                   item_age = req_age r, item_cost = req_cost r\<rparr>]"
    unfolding eq by (simp add: add_commit_store)
next
  show "check_duplicate_in_memory (map (\<lambda>it. it\<lparr>item_id := f it\<rparr>) (in_memory_store st)) c u a k
       = check_duplicate_in_memory (in_memory_store st) c u a k"
    by (rule check_duplicate_in_memory_ignores_id)
  show "map item_id (in_memory_store state_shared_id) = [Some 7, Some 7]"
    by (simp add: state_shared_id_eq item_A1_def item_B2_def)
  show "in_memory_store (snd (remove_item e x st))
       = filter (\<lambda>it. item_id it \<noteq> Some x) (in_memory_store st)"
    by (rule remove_item_store)
  show "\<forall>it \<in> set (in_memory_store (snd (remove_item e x st))). item_id it \<noteq> Some x"
    by (simp add: remove_item_store)
  show "in_memory_store (snd (remove_item e 7 state_shared_id)) = []"
    by (simp add: remove_item_store state_shared_id_eq item_A1_def item_B2_def)
qed

theorem shared_ids_remove_deletes_all_witness:
  "AddItemRequest_valid request_B2
   \<and> \<not> check_duplicate_in_memory [item_A1] ''B2'' 1 3 (Finite (5 / 2))
   \<and> \<not> connect_ok env_db_down
   \<and> in_memory_store
       (snd (add_item env_db_down request_B2
               \<lparr>in_memory_store = [item_A1], persistence_file = NoFile, db_log = []\<rparr>))
     = [item_A1, item_B2]
   \<and> item_id item_A1 = item_id item_B2
   \<and> in_memory_store
       (snd (remove_item env_reconnect_refused 7
               \<lparr>in_memory_store = [item_A1, item_B2], persistence_file = NoFile, db_log = []\<rparr>))
     = []"
proof -
  have v: "AddItemRequest_valid request_B2"
    by (simp add: AddItemRequest_valid_def request_B2_def)
  have d: "\<not> check_duplicate_in_memory [item_A1] ''B2'' 1 3 (Finite (5 / 2))"
    by (simp add: item_A1_def)
  have c: "\<not> connect_ok env_db_down" by (simp add: env_db_down_def)
  have i: "item_id item_A1 = item_id item_B2" by (simp add: item_A1_def item_B2_def)
  have f: "filter (\<lambda>it. item_id it \<noteq> Some 7) [item_A1, item_B2] = []"
    by (simp add: item_A1_def item_B2_def)
  have b: "\<lparr>item_id = Some (req_id request_B2), item_code = req_code request_B2,
            item_unit = req_unit request_B2, item_age = req_age request_B2,
            item_cost = req_cost request_B2\<rparr> = item_B2"
    by (simp add: request_B2_def item_B2_def)
  have "AddItemRequest_valid request_B2
      \<and> \<not> check_duplicate_in_memory
            (in_memory_store \<lparr>in_memory_store = [item_A1], persistence_file = NoFile, db_log = []\<rparr>)
            (req_code request_B2) (req_unit request_B2) (req_age request_B2) (req_cost request_B2)
      \<and> \<not> connect_ok env_db_down
    \<longrightarrow> (\<exists>resp. fst (add_item env_db_down request_B2
                  \<lparr>in_memory_store = [item_A1], persistence_file = NoFile, db_log = []\<rparr>) = Inr resp)
        \<and> in_memory_store (snd (add_item env_db_down request_B2
                  \<lparr>in_memory_store = [item_A1], persistence_file = NoFile, db_log = []\<rparr>))
            = in_memory_store \<lparr>in_memory_store = [item_A1], persistence_file = NoFile, db_log = []\<rparr>
              @ [\<lparr>item_id = Some (req_id request_B2), item_code = req_code request_B2,
                   item_unit = req_unit request_B2, item_age = req_age request_B2,
                   item_cost = req_cost request_B2\<rparr>]"
    by (rule conjunct1 [OF shared_ids_remove_deletes_all])
  with v d c have 1: "in_memory_store
       (snd (add_item env_db_down request_B2
               \<lparr>in_memory_store = [item_A1], persistence_file = NoFile, db_log = []\<rparr>))
     = [item_A1, item_B2]"
    by (simp add: request_B2_def item_B2_def)
  have "in_memory_store
       (snd (remove_item env_reconnect_refused 7
               \<lparr>in_memory_store = [item_A1, item_B2], persistence_file = NoFile, db_log = []\<rparr>))
     = filter (\<lambda>it. item_id it \<noteq> Some 7)
         (in_memory_store
            \<lparr>in_memory_store = [item_A1, item_B2], persistence_file = NoFile, db_log = []\<rparr>)"
    by (rule conjunct1 [OF conjunct2 [OF conjunct2 [OF conjunct2
          [OF shared_ids_remove_deletes_all]]]])
  then have 2: "in_memory_store
       (snd (remove_item env_reconnect_refused 7
               \<lparr>in_memory_store = [item_A1, item_B2], persistence_file = NoFile, db_log = []\<rparr>))
     = []"
    by (simp add: item_A1_def item_B2_def)
  from v d c i 1 2 show ?thesis by simp
qed

end
